theory Spec2Isabelle
  imports Complex_Main "HOL-Library.Word" "HOL-Library.Multiset"
begin

unbundle bit_operations_syntax

section \<open>Data model of DistantSky.cpp\<close>

text \<open>
  C++ \<open>double\<close> values are modelled as \<open>real\<close>; \<open>int\<close> values as \<open>int\<close>
  (none of the arithmetic below can leave the 32-bit range unless noted);
  \<open>uint16_t\<close> and \<open>uint32_t\<close> as words.  A failed \<open>DebugAssert\<close>, a
  \<open>DebugCrash\<close> and a \<open>std::out_of_range\<close> are values of \<open>error\<close>.
\<close>

datatype error =
    NotACity
  | InvalidClimateType
  | IndexOutOfRange
  | DigitsTooLong
  | StringOutOfRange
  | FrameTimeNotPositive
  | MoonPhaseOutOfRange
  | PaletteMissing
  | PaletteOutOfRange
  | StarFilenameNoDigit

record Buffer2D =
  buf_width :: int
  buf_height :: int
  buf_data :: "8 word list"

record LandObject =
  land_entryIndex :: int
  land_angleRadians :: real

record AnimatedLandObject =
  setEntryIndex :: int
  anim_angleRadians :: real
  targetFrameTime :: real
  currentFrameTime :: real
  index :: int

record AirObject =
  air_entryIndex :: int
  air_angleRadians :: real
  air_height :: real

datatype MoonType = First | Second

record MoonObject =
  moon_entryIndex :: int
  phasePercent :: real
  moon_type :: MoonType

record Double3 =
  d3x :: real
  d3y :: real
  d3z :: real

record Double4 =
  d4x :: real
  d4y :: real
  d4z :: real
  d4w :: real

datatype StarObject =
    SmallStar (small_color: "32 word") (star_direction: Double3)
  | LargeStar (large_entryIndex: int) (star_direction: Double3)

record TextureEntry =
  tex_filename :: string
  tex_texture :: Buffer2D

record TextureSetEntry =
  set_filename :: string
  set_textures :: "Buffer2D list"

record DistantSky =
  landObjects :: "LandObject list"
  animLandObjects :: "AnimatedLandObject list"
  airObjects :: "AirObject list"
  moonObjects :: "MoonObject list"
  starObjects :: "StarObject list"
  sunEntryIndex :: "int option"
  textures :: "TextureEntry list"
  textureSets :: "TextureSetEntry list"

definition emptySky :: DistantSky where
  "emptySky = \<lparr> landObjects = [], animLandObjects = [], airObjects = [],
     moonObjects = [], starObjects = [], sunEntryIndex = None,
     textures = [], textureSets = [] \<rparr>"

section \<open>AnimatedLandObject\<close>

text \<open>The three-argument constructor: asserts a positive frame time.\<close>

definition mkAnimatedLandObject :: "int \<Rightarrow> real \<Rightarrow> real \<Rightarrow> error + AnimatedLandObject" where
  "mkAnimatedLandObject setIdx angle frameTime =
     (if frameTime > 0
      then Inr \<lparr> setEntryIndex = setIdx, anim_angleRadians = angle,
                 targetFrameTime = frameTime, currentFrameTime = 0, index = 0 \<rparr>
      else Inl FrameTimeNotPositive)"

definition setFrameTime :: "real \<Rightarrow> AnimatedLandObject \<Rightarrow> error + AnimatedLandObject" where
  "setFrameTime frameTime a =
     (if frameTime > 0 then Inr (a\<lparr>targetFrameTime := frameTime\<rparr>)
      else Inl FrameTimeNotPositive)"

text \<open>\<open>DistantSky::getTextureSetCount\<close>, with its \<open>DebugAssertIndex\<close>.\<close>

definition getTextureSetCount :: "DistantSky \<Rightarrow> int \<Rightarrow> error + int" where
  "getTextureSetCount sky i =
     (if 0 \<le> i \<and> i < int (length (textureSets sky))
      then Inr (int (length (set_textures (textureSets sky ! nat i))))
      else Inl IndexOutOfRange)"

text \<open>
  The \<open>while\<close> loop of \<open>update\<close>.  It has no bound of its own, so it is a
  partial function: \<open>None\<close> is a loop that never exits.
\<close>

partial_function (option) update_while :: "int \<Rightarrow> AnimatedLandObject \<Rightarrow> AnimatedLandObject option" where
  "update_while textureCount a =
     (if currentFrameTime a \<ge> targetFrameTime a
      then update_while textureCount
             (a\<lparr> currentFrameTime := currentFrameTime a - targetFrameTime a,
                index := (if index a < textureCount - 1 then index a + 1 else 0) \<rparr>)
      else Some a)"

definition update :: "real \<Rightarrow> DistantSky \<Rightarrow> AnimatedLandObject \<Rightarrow> (error + AnimatedLandObject) option" where
  "update dt sky a =
     (case getTextureSetCount sky (setEntryIndex a) of
        Inl e \<Rightarrow> Some (Inl e)
      | Inr textureCount \<Rightarrow>
          if textureCount > 0
          then map_option Inr (update_while textureCount (a\<lparr>currentFrameTime := currentFrameTime a + dt\<rparr>))
          else Some (Inr a))"

text \<open>\<open>DistantSky::tick\<close>: \<open>update\<close> on every animated land object, in order.\<close>

fun tick_objs :: "real \<Rightarrow> DistantSky \<Rightarrow> AnimatedLandObject list \<Rightarrow> (error + AnimatedLandObject list) option" where
  "tick_objs dt sky [] = Some (Inr [])"
| "tick_objs dt sky (a # as) =
     (case update dt sky a of
        None \<Rightarrow> None
      | Some (Inl e) \<Rightarrow> Some (Inl e)
      | Some (Inr a') \<Rightarrow>
          (case tick_objs dt sky as of
             None \<Rightarrow> None
           | Some (Inl e) \<Rightarrow> Some (Inl e)
           | Some (Inr as') \<Rightarrow> Some (Inr (a' # as'))))"

definition tick :: "real \<Rightarrow> DistantSky \<Rightarrow> (error + DistantSky) option" where
  "tick dt sky =
     (case tick_objs dt sky (animLandObjects sky) of
        None \<Rightarrow> None
      | Some (Inl e) \<Rightarrow> Some (Inl e)
      | Some (Inr as') \<Rightarrow> Some (Inr (sky\<lparr>animLandObjects := as'\<rparr>)))"



section \<open>Library functions the generator uses\<close>

text \<open>C++ \<open>%\<close> on \<open>int\<close> truncates towards zero: the result has the sign of the dividend.\<close>

definition c_mod :: "int \<Rightarrow> int \<Rightarrow> int" where
  "c_mod a b = sgn a * (\<bar>a\<bar> mod \<bar>b\<bar>)"

definition digit_char :: "nat \<Rightarrow> char" where
  "digit_char d = char_of (48 + d)"

fun nat_digits :: "nat \<Rightarrow> string" where
  "nat_digits n = (if n < 10 then [digit_char n] else nat_digits (n div 10) @ [digit_char (n mod 10)])"

declare nat_digits.simps [simp del]

text \<open>\<open>std::to_string(int)\<close>: decimal digits, a leading minus sign for a negative value.\<close>

definition to_string :: "int \<Rightarrow> string" where
  "to_string i = (if i < 0 then CHR ''-'' # nat_digits (nat (- i)) else nat_digits (nat i))"

text \<open>\<open>String::toUppercase\<close>: the ASCII letters a..z are mapped to A..Z.\<close>

definition upper_char :: "char \<Rightarrow> char" where
  "upper_char c = (let n = (of_char c :: nat) in if 97 \<le> n \<and> n \<le> 122 then char_of (n - 32) else c)"

definition toUppercase :: "string \<Rightarrow> string" where
  "toUppercase s = map upper_char s"

text \<open>\<open>std::find_if\<close> followed by \<open>std::distance\<close>: the position of the first match.\<close>

fun find_index_of :: "('a \<Rightarrow> bool) \<Rightarrow> 'a list \<Rightarrow> nat option" where
  "find_index_of P [] = None"
| "find_index_of P (x # xs) =
     (if P x then Some 0 else map_option Suc (find_index_of P xs))"

text \<open>\<open>std::string::find\<close> of a substring: does it occur anywhere?\<close>

fun contains_sub :: "string \<Rightarrow> string \<Rightarrow> bool" where
  "contains_sub sub [] = (sub = [])"
| "contains_sub sub (c # cs) = (take (length sub) (c # cs) = sub \<or> contains_sub sub cs)"

definition getTextureEntryIndex :: "DistantSky \<Rightarrow> string \<Rightarrow> int option" where
  "getTextureEntryIndex sky filename =
     map_option int (find_index_of (\<lambda>entry. tex_filename entry = filename) (textures sky))"

definition getTextureSetEntryIndex :: "DistantSky \<Rightarrow> string \<Rightarrow> int option" where
  "getTextureSetEntryIndex sky filename =
     map_option int (find_index_of (\<lambda>entry. set_filename entry = filename) (textureSets sky))"

section \<open>Collaborators\<close>

text \<open>
  \<open>ArenaRandom\<close> is not part of the sources at hand; the generator uses its
  constructor, \<open>next\<close>, \<open>getSeed\<close> and \<open>srand\<close>.  They are parameters, over
  any type \<open>'r\<close> of generator states.
\<close>

record 'r ArenaRandom =
  rnd_make :: "32 word \<Rightarrow> 'r"
  rnd_next :: "'r \<Rightarrow> 16 word \<times> 'r"
  rnd_getSeed :: "'r \<Rightarrow> 32 word"
  rnd_srand :: "32 word \<Rightarrow> 'r \<Rightarrow> 'r"

text \<open>
  \<open>TextureManager\<close>: the two loaders the generator calls, and the calls made so far
  (the kind of loader and the filename asked for), oldest first.
\<close>

datatype LoaderKind = SingleFrame | MultiFrame

record TextureManager =
  make8BitSurface :: "string \<Rightarrow> Buffer2D"
  make8BitSurfaces :: "string \<Rightarrow> Buffer2D list"
  requests :: "(LoaderKind \<times> string) list"

definition loadSurface :: "TextureManager \<Rightarrow> string \<Rightarrow> Buffer2D \<times> TextureManager" where
  "loadSurface tm filename =
     (make8BitSurface tm filename, tm\<lparr>requests := requests tm @ [(SingleFrame, filename)]\<rparr>)"

definition loadSurfaces :: "TextureManager \<Rightarrow> string \<Rightarrow> Buffer2D list \<times> TextureManager" where
  "loadSurfaces tm filename =
     (make8BitSurfaces tm filename, tm\<lparr>requests := requests tm @ [(MultiFrame, filename)]\<rparr>)"

datatype ClimateType = Temperate | Desert | Mountain | OtherClimate int

datatype WeatherType = Clear | OtherWeather int

datatype LocationType = City | OtherLocation

record CityDefinition =
  climateType :: ClimateType
  distantSkySeed :: "32 word"
  citySeed :: "32 word"

record LocationDefinition =
  loc_type :: LocationType
  cityDefinition :: CityDefinition

record ProvinceDefinition =
  hasAnimatedDistantLand :: bool

text \<open>The fields of \<open>ExeData::locations\<close> that \<open>init\<close> reads.\<close>

record ExeData =
  distantMountainFilenames :: "string list"
  cloudFilename :: string
  animDistantMountainFilenames :: "string list"
  moonFilenames :: "string list"
  starFilename :: string
  sunFilename :: string

text \<open>The intermediate star records of \<open>init\<close>.\<close>

record SubStar =
  sub_dx :: int
  sub_dy :: int
  sub_color :: int

record Star =
  star_x :: int
  star_y :: int
  star_z :: int
  subList :: "SubStar list"
  star_type :: int

text \<open>
  The remaining code \<open>init\<close> calls that is not among the sources: map geometry,
  \<open>std::atan2\<close>, the rotation matrices (a matrix is given by the map \<open>v \<mapsto> M v\<close>),
  \<open>std::sort\<close> with the comparator of \<open>init\<close>, the default palette after
  \<open>Color::toARGB\<close> (\<open>None\<close> when the palette file cannot be read) and the constant
  \<open>AnimatedLandObject::DEFAULT_FRAME_TIME\<close>.
\<close>

record 'r Collab =
  random :: "'r ArenaRandom"
  getLocalCityPoint :: "32 word \<Rightarrow> int \<times> int"
  getDistance :: "int \<times> int \<Rightarrow> int \<times> int \<Rightarrow> int"
  atan2 :: "real \<Rightarrow> real \<Rightarrow> real"
  xRotation :: "real \<Rightarrow> Double4 \<Rightarrow> Double4"
  yRotation :: "real \<Rightarrow> Double4 \<Rightarrow> Double4"
  std_sort :: "Star list \<Rightarrow> Star list"
  defaultPalette :: "32 word list option"
  DEFAULT_FRAME_TIME :: real

section \<open>Static objects: mountains and clouds\<close>

record DistantMountainTraits =
  filenameIndex :: int
  position :: int
  variation :: int
  maxDigits :: int

definition MountainTraits :: "(ClimateType \<times> DistantMountainTraits) list" where
  "MountainTraits =
     [(Temperate, \<lparr> filenameIndex = 2, position = 4, variation = 10, maxDigits = 2 \<rparr>),
      (Desert, \<lparr> filenameIndex = 1, position = 6, variation = 4, maxDigits = 1 \<rparr>),
      (Mountain, \<lparr> filenameIndex = 0, position = 6, variation = 11, maxDigits = 2 \<rparr>)]"

definition UNIQUE_ANGLES :: int where
  "UNIQUE_ANGLES = 512"

definition IDENTITY_DIM :: real where
  "IDENTITY_DIM = 320"

definition IDENTITY_ANGLE_RADIANS :: real where
  "IDENTITY_ANGLE_RADIANS = 90 * (pi / 180)"

text \<open>The lambda \<open>arenaAngleToRadians\<close>, with \<open>Constants::TwoPi\<close> and \<open>Constants::HalfPi\<close>.\<close>

definition arenaAngleToRadians :: "int \<Rightarrow> real" where
  "arenaAngleToRadians angle =
     (let arenaRadians = (2 * pi) * (real_of_int angle / real_of_int UNIQUE_ANGLES);
          flippedArenaRadians = (2 * pi) - arenaRadians
      in flippedArenaRadians - pi / 2)"

text \<open>The digits of the filename variant: one draw; a draw of 0 gives \<open>var\<close> itself.\<close>

definition makeDigits :: "'r ArenaRandom \<Rightarrow> int \<Rightarrow> 'r \<Rightarrow> string \<times> 'r" where
  "makeDigits R var r =
     (case rnd_next R r of (w, r') \<Rightarrow>
        (let randVal = c_mod (uint w) var
         in (to_string (if randVal = 0 then var else randVal), r')))"

text \<open>
  The loop \<open>name.at(pos + offset + index) = digits.at(index)\<close>; \<open>p\<close> is the position
  of the next write.  \<open>std::string::at\<close> throws outside the string.
\<close>

fun writeDigits :: "string \<Rightarrow> int \<Rightarrow> string \<Rightarrow> error + string" where
  "writeDigits name p [] = Inr name"
| "writeDigits name p (d # ds) =
     (if 0 \<le> p \<and> p < int (length name)
      then writeDigits (name[nat p := d]) (p + 1) ds
      else Inl StringOutOfRange)"

definition makeFilename :: "string \<Rightarrow> int \<Rightarrow> int \<Rightarrow> string \<Rightarrow> error + string" where
  "makeFilename baseFilename pos maxDig digits =
     (let digitCount = int (length digits);
          offset = maxDig - digitCount
      in case writeDigits baseFilename (pos + offset) digits of
           Inl e \<Rightarrow> Inl e
         | Inr name \<Rightarrow> Inr (toUppercase name))"

text \<open>
  The lambda \<open>fixEntryIndexIfMissing\<close>: an identifier that the lookup did not find is
  loaded and appended, and gets the last index.  The blocks that resolve the texture of
  a large star and of the sun have the same text.
\<close>

definition fixEntryIndexIfMissing :: "TextureManager \<Rightarrow> DistantSky \<Rightarrow> string \<Rightarrow> int option \<Rightarrow> int \<times> DistantSky \<times> TextureManager" where
  "fixEntryIndexIfMissing tm sky filename entryIndex =
     (case entryIndex of
        Some i \<Rightarrow> (i, sky, tm)
      | None \<Rightarrow>
          (case loadSurface tm filename of (surface, tm') \<Rightarrow>
             (let sky' = sky\<lparr>textures := textures sky @ [\<lparr> tex_filename = filename, tex_texture = surface \<rparr>]\<rparr>
              in (int (length (textures sky')) - 1, sky', tm'))))"

text \<open>One iteration of the loop of \<open>placeStaticObjects\<close>.\<close>

definition placeStaticObject :: "'r ArenaRandom \<Rightarrow> string \<Rightarrow> int \<Rightarrow> int \<Rightarrow> int \<Rightarrow> bool \<Rightarrow> 'r \<times> DistantSky \<times> TextureManager \<Rightarrow> error + ('r \<times> DistantSky \<times> TextureManager)" where
  "placeStaticObject R baseFilename pos var maxDig randomHeight st =
     (case st of (r, sky, tm) \<Rightarrow>
      (case makeDigits R var r of (digits, r1) \<Rightarrow>
       if \<not> int (length digits) \<le> maxDig then Inl DigitsTooLong
       else
        (case makeFilename baseFilename pos maxDig digits of
           Inl e \<Rightarrow> Inl e
         | Inr filename \<Rightarrow>
            (let entryIndex = getTextureEntryIndex sky filename in
             (case (if randomHeight
                    then (case rnd_next R r1 of (wy, ry) \<Rightarrow> (c_mod (uint wy) 64, ry))
                    else (0, r1)) of (yPos, r2) \<Rightarrow>
              (case rnd_next R r2 of (wa, r3) \<Rightarrow>
               (let arenaAngle = c_mod (uint wa) UNIQUE_ANGLES;
                    angleRadians = arenaAngleToRadians arenaAngle;
                    isLand = (\<not> randomHeight)
                in (case fixEntryIndexIfMissing tm sky filename entryIndex of (idx, sky1, tm1) \<Rightarrow>
                    if isLand
                    then Inr (r3, sky1\<lparr>landObjects := landObjects sky1 @
                                 [\<lparr> land_entryIndex = idx, land_angleRadians = angleRadians \<rparr>]\<rparr>, tm1)
                    else Inr (r3, sky1\<lparr>airObjects := airObjects sky1 @
                                 [\<lparr> air_entryIndex = idx, air_angleRadians = angleRadians,
                                    air_height = real_of_int yPos / real_of_int 64 \<rparr>]\<rparr>, tm1)))))))))"

primrec placeStaticObjects_n :: "nat \<Rightarrow> 'r ArenaRandom \<Rightarrow> string \<Rightarrow> int \<Rightarrow> int \<Rightarrow> int \<Rightarrow> bool \<Rightarrow> 'r \<times> DistantSky \<times> TextureManager \<Rightarrow> error + ('r \<times> DistantSky \<times> TextureManager)" where
  "placeStaticObjects_n 0 R baseFilename pos var maxDig randomHeight st = Inr st"
| "placeStaticObjects_n (Suc n) R baseFilename pos var maxDig randomHeight st =
     (case placeStaticObject R baseFilename pos var maxDig randomHeight st of
        Inl e \<Rightarrow> Inl e
      | Inr st' \<Rightarrow> placeStaticObjects_n n R baseFilename pos var maxDig randomHeight st')"

definition placeStaticObjects :: "'r ArenaRandom \<Rightarrow> int \<Rightarrow> string \<Rightarrow> int \<Rightarrow> int \<Rightarrow> int \<Rightarrow> bool \<Rightarrow> 'r \<times> DistantSky \<times> TextureManager \<Rightarrow> error + ('r \<times> DistantSky \<times> TextureManager)" where
  "placeStaticObjects R cnt baseFilename pos var maxDig randomHeight st =
     placeStaticObjects_n (nat cnt) R baseFilename pos var maxDig randomHeight st"

text \<open>The mountains: the generator is made from the city's seed, and the first draw gives the count.\<close>

definition placeMountains :: "'r ArenaRandom \<Rightarrow> CityDefinition \<Rightarrow> DistantMountainTraits \<Rightarrow> string \<Rightarrow> DistantSky \<times> TextureManager \<Rightarrow> error + ('r \<times> DistantSky \<times> TextureManager)" where
  "placeMountains R cityDef mtnTraits baseFilename st =
     (case st of (sky, tm) \<Rightarrow>
      (case rnd_next R (rnd_make R (distantSkySeed cityDef)) of (w, r) \<Rightarrow>
        (let cnt = c_mod (uint w) 4 + 2
         in placeStaticObjects R cnt baseFilename (position mtnTraits) (variation mtnTraits)
              (maxDigits mtnTraits) False (r, sky, tm))))"

text \<open>
  The clouds: \<open>uint32_t cloudSeed = random.getSeed() + (currentDay % 32)\<close>, the
  \<open>int\<close> summand converted to \<open>uint32_t\<close>.
\<close>

definition cloudSeed :: "'r ArenaRandom \<Rightarrow> int \<Rightarrow> 'r \<Rightarrow> 32 word" where
  "cloudSeed R currentDay r = rnd_getSeed R r + word_of_int (c_mod currentDay 32)"

text \<open>
  The cloud seed as the specification words it: \<open>originalSeed + (dayCount mod 32)\<close>,
  \<open>originalSeed\<close> being the seed that generation started with.
\<close>

definition spec_cloudSeed :: "CityDefinition \<Rightarrow> int \<Rightarrow> 32 word" where
  "spec_cloudSeed cityDef currentDay = distantSkySeed cityDef + word_of_int (currentDay mod 32)"

definition placeClouds :: "'r ArenaRandom \<Rightarrow> WeatherType \<Rightarrow> int \<Rightarrow> ExeData \<Rightarrow> 'r \<times> DistantSky \<times> TextureManager \<Rightarrow> error + ('r \<times> DistantSky \<times> TextureManager)" where
  "placeClouds R weatherType currentDay exeData st =
     (case st of (r, sky, tm) \<Rightarrow>
        (let hasClouds = (weatherType = Clear) in
         if hasClouds
         then placeStaticObjects R 7 (cloudFilename exeData) 5 17 2 True
                (rnd_srand R (cloudSeed R currentDay r) r, sky, tm)
         else Inr st))"

section \<open>Animated distant land\<close>

definition initAnimatedLand :: "'r Collab \<Rightarrow> CityDefinition \<Rightarrow> ExeData \<Rightarrow> DistantSky \<times> TextureManager \<Rightarrow> error + (DistantSky \<times> TextureManager)" where
  "initAnimatedLand C cityDef exeData st =
     (case st of (sky, tm) \<Rightarrow>
      (let animLandGlobalPos = (132, 52);
           locationGlobalPos = getLocalCityPoint C (citySeed cityDef);
           dist = getDistance C locationGlobalPos animLandGlobalPos;
           angle = atan2 C (real_of_int (snd locationGlobalPos - snd animLandGlobalPos))
                           (real_of_int (fst animLandGlobalPos - fst locationGlobalPos));
           animIndex = (if dist < 80 then 0 else if dist < 150 then 1 else (2::nat));
           animFilenames = animDistantMountainFilenames exeData
       in if \<not> animIndex < length animFilenames then Inl IndexOutOfRange
          else
           (let animFilename = toUppercase (animFilenames ! animIndex);
                setIndex = getTextureSetEntryIndex sky animFilename
            in (case (case setIndex of
                        Some i \<Rightarrow> (i, sky, tm)
                      | None \<Rightarrow>
                          (let hasMultipleFrames = contains_sub ''.DFA'' animFilename in
                           (case (if hasMultipleFrames
                                  then loadSurfaces tm animFilename
                                  else (case loadSurface tm animFilename of
                                          (surface, tm') \<Rightarrow> ([surface], tm'))) of
                              (surfaces, tm') \<Rightarrow>
                                (let sky' = sky\<lparr>textureSets := textureSets sky @
                                              [\<lparr> set_filename = animFilename, set_textures = surfaces \<rparr>]\<rparr>
                                 in (int (length (textureSets sky')) - 1, sky', tm'))))) of
                  (idx, sky1, tm1) \<Rightarrow>
                    (case mkAnimatedLandObject idx angle (DEFAULT_FRAME_TIME C) of
                       Inl e \<Rightarrow> Inl e
                     | Inr animLandObj \<Rightarrow>
                         Inr (sky1\<lparr>animLandObjects := animLandObjects sky1 @ [animLandObj]\<rparr>, tm1))))))"

section \<open>Moons\<close>

definition moonPhaseIndex :: "int \<Rightarrow> MoonType \<Rightarrow> int" where
  "moonPhaseIndex currentDay t =
     (case t of First \<Rightarrow> c_mod currentDay 32 | Second \<Rightarrow> c_mod (currentDay + 14) 32)"

text \<open>\<open>static_cast<int>(type)\<close>: the enumerators in declaration order.\<close>

definition moonIndexOf :: "MoonType \<Rightarrow> nat" where
  "moonIndexOf t = (case t of First \<Rightarrow> 0 | Second \<Rightarrow> 1)"

definition makeMoon :: "int \<Rightarrow> ExeData \<Rightarrow> MoonType \<Rightarrow> DistantSky \<times> TextureManager \<Rightarrow> error + (MoonObject \<times> DistantSky \<times> TextureManager)" where
  "makeMoon currentDay exeData t st =
     (case st of (sky, tm) \<Rightarrow>
      (let phaseCount = 32;
           phaseIndex = moonPhaseIndex currentDay t;
           moonIndex = moonIndexOf t
       in if \<not> moonIndex < length (moonFilenames exeData) then Inl IndexOutOfRange
          else
           (let filename = toUppercase (moonFilenames exeData ! moonIndex);
                phasePct = real_of_int phaseIndex / real_of_int phaseCount
            in (case getTextureEntryIndex sky filename of
                  Some i \<Rightarrow> Inr (\<lparr> moon_entryIndex = i, phasePercent = phasePct, moon_type = t \<rparr>, sky, tm)
                | None \<Rightarrow>
                    (case loadSurfaces tm filename of (surfaces, tm') \<Rightarrow>
                       if \<not> (phaseIndex \<ge> 0 \<and> phaseIndex < int (length surfaces))
                       then Inl MoonPhaseOutOfRange
                       else
                        (let sky' = sky\<lparr>textures := textures sky @
                                      [\<lparr> tex_filename = filename, tex_texture = surfaces ! nat phaseIndex \<rparr>]\<rparr>
                         in Inr (\<lparr> moon_entryIndex = int (length (textures sky')) - 1,
                                    phasePercent = phasePct, moon_type = t \<rparr>, sky', tm')))))))"

definition initMoons :: "int \<Rightarrow> ExeData \<Rightarrow> DistantSky \<times> TextureManager \<Rightarrow> error + (DistantSky \<times> TextureManager)" where
  "initMoons currentDay exeData st =
     (case makeMoon currentDay exeData First st of
        Inl e \<Rightarrow> Inl e
      | Inr (m1, sky1, tm1) \<Rightarrow>
          (case makeMoon currentDay exeData Second (sky1\<lparr>moonObjects := moonObjects sky1 @ [m1]\<rparr>, tm1) of
             Inl e \<Rightarrow> Inl e
           | Inr (m2, sky2, tm2) \<Rightarrow> Inr (sky2\<lparr>moonObjects := moonObjects sky2 @ [m2]\<rparr>, tm2)))"

section \<open>Stars\<close>

definition NO_STAR_TYPE :: int where
  "NO_STAR_TYPE = - 1"

text \<open>The lambda \<open>getRndCoord\<close>: \<open>d = (0x800 + next) & 0x0FFF\<close>, negated unless bit 1 is clear.\<close>

definition getRndCoord :: "'r ArenaRandom \<Rightarrow> 'r \<Rightarrow> int \<times> 'r" where
  "getRndCoord R r =
     (case rnd_next R r of (w, r') \<Rightarrow>
        (let d = (0x800 + uint w) AND 0x0FFF
         in (if d AND 2 = 0 then d else - d, r')))"

text \<open>
  The sub-stars of a constellation, three draws each:
  \<open>static_cast<int16_t>(next) >> 9\<close> twice (an arithmetic shift) and \<open>next % 10 + 64\<close>.
\<close>

primrec makeSubStars :: "'r ArenaRandom \<Rightarrow> nat \<Rightarrow> 'r \<Rightarrow> SubStar list \<times> 'r" where
  "makeSubStars R 0 r = ([], r)"
| "makeSubStars R (Suc n) r =
     (case rnd_next R r of (w1, r1) \<Rightarrow>
      (case rnd_next R r1 of (w2, r2) \<Rightarrow>
       (case rnd_next R r2 of (w3, r3) \<Rightarrow>
        (let subStar = \<lparr> sub_dx = drop_bit 9 (sint w1), sub_dy = drop_bit 9 (sint w2),
                          sub_color = c_mod (uint w3) 10 + 64 \<rparr>
         in (case makeSubStars R n r3 of (rest, r') \<Rightarrow> (subStar # rest, r'))))))"

text \<open>
  The \<open>do ... while\<close> loop that draws the type of a large star: a draw in the planet
  range whose slot is taken is drawn again.  Nothing bounds the number of draws.
\<close>

partial_function (option) drawLargeStarType :: "'r ArenaRandom \<Rightarrow> bool list \<Rightarrow> 'r \<Rightarrow> (int \<times> 'r) option" where
  "drawLargeStarType R planets r =
     (case rnd_next R r of (w, r') \<Rightarrow>
        (let v = c_mod (uint w) 8
         in if v \<ge> 5 \<and> planets ! nat (v - 5)
            then drawLargeStarType R planets r'
            else Some (v, r')))"

text \<open>One iteration of the star loop.\<close>

definition makeStar :: "'r ArenaRandom \<Rightarrow> 'r \<times> bool list \<Rightarrow> (Star \<times> 'r \<times> bool list) option" where
  "makeStar R st =
     (case st of (r, planets) \<Rightarrow>
      (case getRndCoord R r of (x, r1) \<Rightarrow>
       (case getRndCoord R r1 of (y, r2) \<Rightarrow>
        (case getRndCoord R r2 of (z, r3) \<Rightarrow>
         (case rnd_next R r3 of (ws, r4) \<Rightarrow>
          (let selection = c_mod (uint ws) 4 in
           if selection \<noteq> 0
           then (case rnd_next R r4 of (wn, r5) \<Rightarrow>
                  (let n = 2 + c_mod (uint wn) 4 in
                   (case makeSubStars R (nat n) r5 of (starList, r6) \<Rightarrow>
                      Some (\<lparr> star_x = x, star_y = y, star_z = z,
                               subList = starList, star_type = NO_STAR_TYPE \<rparr>, r6, planets))))
           else (case drawLargeStarType R planets r4 of
                   None \<Rightarrow> None
                 | Some (v, r5) \<Rightarrow>
                     Some (\<lparr> star_x = x, star_y = y, star_z = z, subList = [], star_type = v \<rparr>,
                           r5, (if v \<ge> 5 then planets[nat (v - 5) := True] else planets)))))))))"

primrec generateStars :: "'r ArenaRandom \<Rightarrow> nat \<Rightarrow> 'r \<times> bool list \<Rightarrow> (Star list \<times> 'r \<times> bool list) option" where
  "generateStars R 0 st = Some ([], st)"
| "generateStars R (Suc n) st =
     (case makeStar R st of
        None \<Rightarrow> None
      | Some (star, st') \<Rightarrow>
          (case generateStars R n st' of
             None \<Rightarrow> None
           | Some (stars, st'') \<Rightarrow> Some (star # stars, st'')))"

text \<open>
  The star list before sorting: the generator is reseeded with \<open>0x12345679\<close>, no planet
  slot is taken, and \<open>starCount\<close> stars are made (none for a count below 1).
\<close>

definition makeStars :: "'r ArenaRandom \<Rightarrow> int \<Rightarrow> 'r \<Rightarrow> (Star list \<times> 'r \<times> bool list) option" where
  "makeStars R starCount r =
     generateStars R (nat starCount) (rnd_srand R 0x12345679 r, [False, False, False])"

text \<open>
  Modelled from the spec: \<open>Double3::normalized\<close> is not among the sources; the
  specification says "Normalize the raw 3D position to a unit direction for every star".
\<close>

definition normalized :: "Double3 \<Rightarrow> Double3" where
  "normalized v =
     (let len = sqrt (d3x v * d3x v + d3y v * d3y v + d3z v * d3z v)
      in \<lparr> d3x = d3x v / len, d3y = d3y v / len, d3z = d3z v / len \<rparr>)"

definition subStarDirection :: "'r Collab \<Rightarrow> Double3 \<Rightarrow> SubStar \<Rightarrow> Double3" where
  "subStarDirection C direction subStar =
     (let dxPercent = real_of_int (sub_dx subStar) / IDENTITY_DIM;
          dyPercent = real_of_int (sub_dy subStar) / IDENTITY_DIM;
          dxRadians = dxPercent * IDENTITY_ANGLE_RADIANS;
          dyRadians = dyPercent * IDENTITY_ANGLE_RADIANS;
          newDir = yRotation C dyRadians (xRotation C dxRadians
                     \<lparr> d4x = d3x direction, d4y = d3y direction, d4z = d3z direction, d4w = 0 \<rparr>)
      in \<lparr> d3x = d4x newDir, d3y = d4y newDir, d3z = d4z newDir \<rparr>)"

text \<open>The small stars of one constellation; \<open>palette.get().at(...)\<close> throws out of range.\<close>

fun convertSubStars :: "'r Collab \<Rightarrow> 32 word list \<Rightarrow> Double3 \<Rightarrow> SubStar list \<Rightarrow> error + StarObject list" where
  "convertSubStars C palette direction [] = Inr []"
| "convertSubStars C palette direction (subStar # rest) =
     (if \<not> (0 \<le> sub_color subStar \<and> sub_color subStar < int (length palette))
      then Inl PaletteOutOfRange
      else
       (let color = palette ! nat (sub_color subStar);
            subDirection = subStarDirection C direction subStar
        in (case convertSubStars C palette direction rest of
              Inl e \<Rightarrow> Inl e
            | Inr objs \<Rightarrow> Inr (SmallStar color subDirection # objs))))"

text \<open>The filename of a large star: the first \<open>1\<close> of the template becomes \<open>type + 1\<close>.\<close>

definition largeStarFilename :: "ExeData \<Rightarrow> int \<Rightarrow> error + string" where
  "largeStarFilename exeData t =
     (let typeStr = to_string (t + 1);
          filename = starFilename exeData
      in (case find_index_of (\<lambda>c. c = CHR ''1'') filename of
            None \<Rightarrow> Inl StarFilenameNoDigit
          | Some i \<Rightarrow> Inr (toUppercase (take i filename @ typeStr @ drop (Suc i) filename))))"

definition convertStar :: "'r Collab \<Rightarrow> 32 word list \<Rightarrow> ExeData \<Rightarrow> Star \<Rightarrow> DistantSky \<times> TextureManager \<Rightarrow> error + (DistantSky \<times> TextureManager)" where
  "convertStar C palette exeData star st =
     (case st of (sky, tm) \<Rightarrow>
      (let direction = normalized \<lparr> d3x = real_of_int (star_x star), d3y = real_of_int (star_y star),
                                      d3z = real_of_int (star_z star) \<rparr>;
           isSmallStar = (star_type star = - 1)
       in if isSmallStar
          then (case convertSubStars C palette direction (subList star) of
                  Inl e \<Rightarrow> Inl e
                | Inr objs \<Rightarrow> Inr (sky\<lparr>starObjects := starObjects sky @ objs\<rparr>, tm))
          else (case largeStarFilename exeData (star_type star) of
                  Inl e \<Rightarrow> Inl e
                | Inr filename \<Rightarrow>
                    (case fixEntryIndexIfMissing tm sky filename (getTextureEntryIndex sky filename) of
                       (idx, sky1, tm1) \<Rightarrow>
                         Inr (sky1\<lparr>starObjects := starObjects sky1 @ [LargeStar idx direction]\<rparr>, tm1)))))"

fun convertStars :: "'r Collab \<Rightarrow> 32 word list \<Rightarrow> ExeData \<Rightarrow> Star list \<Rightarrow> DistantSky \<times> TextureManager \<Rightarrow> error + (DistantSky \<times> TextureManager)" where
  "convertStars C palette exeData [] st = Inr st"
| "convertStars C palette exeData (star # stars) st =
     (case convertStar C palette exeData star st of
        Inl e \<Rightarrow> Inl e
      | Inr st' \<Rightarrow> convertStars C palette exeData stars st')"

text \<open>
  What the C++ standard promises of \<open>std::sort\<close> with the comparator
  \<open>a.type < b.type\<close>: the result is a permutation of the input in which no element
  compares less than an earlier one.  The order of elements that compare equal is not
  specified.
\<close>

definition std_sort_contract :: "(Star list \<Rightarrow> Star list) \<Rightarrow> bool" where
  "std_sort_contract srt =
     (\<forall>stars. mset (srt stars) = mset stars
        \<and> sorted_wrt (\<lambda>a b. \<not> star_type b < star_type a) (srt stars))"


text \<open>The star list as \<open>init\<close> holds it after \<open>std::sort\<close>.\<close>

definition sortedStars :: "'r Collab \<Rightarrow> int \<Rightarrow> 'r \<Rightarrow> Star list option" where
  "sortedStars C starCount r =
     (case makeStars (random C) starCount r of
        None \<Rightarrow> None
      | Some (stars, st) \<Rightarrow> Some (std_sort C stars))"

definition initStars :: "'r Collab \<Rightarrow> int \<Rightarrow> ExeData \<Rightarrow> 'r \<Rightarrow> DistantSky \<times> TextureManager \<Rightarrow> (error + (DistantSky \<times> TextureManager)) option" where
  "initStars C starCount exeData r st =
     (case sortedStars C starCount r of
        None \<Rightarrow> None
      | Some stars \<Rightarrow>
          (case defaultPalette C of
             None \<Rightarrow> Some (Inl PaletteMissing)
           | Some palette \<Rightarrow> Some (convertStars C palette exeData stars st)))"

section \<open>Sun\<close>

definition initSun :: "ExeData \<Rightarrow> DistantSky \<times> TextureManager \<Rightarrow> DistantSky \<times> TextureManager" where
  "initSun exeData st =
     (case st of (sky, tm) \<Rightarrow>
      (let filename = toUppercase (sunFilename exeData)
       in (case fixEntryIndexIfMissing tm sky filename (getTextureEntryIndex sky filename) of
             (idx, sky1, tm1) \<Rightarrow> (sky1\<lparr>sunEntryIndex := Some idx\<rparr>, tm1))))"

section \<open>DistantSky::init\<close>

text \<open>The space objects of clear weather: moons, stars, sun.\<close>

definition initSpaceObjects :: "'r Collab \<Rightarrow> WeatherType \<Rightarrow> int \<Rightarrow> int \<Rightarrow> ExeData \<Rightarrow> 'r \<Rightarrow> DistantSky \<times> TextureManager \<Rightarrow> (error + (DistantSky \<times> TextureManager)) option" where
  "initSpaceObjects C weatherType currentDay starCount exeData r st =
     (let hasSpaceObjects = (weatherType = Clear) in
      if hasSpaceObjects
      then (case initMoons currentDay exeData st of
              Inl e \<Rightarrow> Some (Inl e)
            | Inr st1 \<Rightarrow>
                (case initStars C starCount exeData r st1 of
                   None \<Rightarrow> None
                 | Some (Inl e) \<Rightarrow> Some (Inl e)
                 | Some (Inr st2) \<Rightarrow> Some (Inr (initSun exeData st2))))
      else Some (Inr st))"

text \<open>
  \<open>init\<close> on a sky and a texture manager.  The result is \<open>None\<close> when a star-type
  loop never exits, \<open>Some (Inl e)\<close> when an assertion fails or an exception leaves
  \<open>init\<close>, and \<open>Some (Inr (sky', tm'))\<close> when \<open>init\<close> returns.
\<close>

definition init :: "'r Collab \<Rightarrow> LocationDefinition \<Rightarrow> ProvinceDefinition \<Rightarrow> WeatherType \<Rightarrow> int \<Rightarrow> int \<Rightarrow> ExeData \<Rightarrow> DistantSky \<times> TextureManager \<Rightarrow> (error + (DistantSky \<times> TextureManager)) option" where
  "init C locationDef provinceDef weatherType currentDay starCount exeData st =
     (if loc_type locationDef \<noteq> City then Some (Inl NotACity)
      else
       (let cityDef = cityDefinition locationDef in
        (case find_index_of (\<lambda>pair. fst pair = climateType cityDef) MountainTraits of
           None \<Rightarrow> Some (Inl InvalidClimateType)
         | Some k \<Rightarrow>
            (let mtnTraits = snd (MountainTraits ! k) in
             if \<not> (0 \<le> filenameIndex mtnTraits
                    \<and> filenameIndex mtnTraits < int (length (distantMountainFilenames exeData)))
             then Some (Inl IndexOutOfRange)
             else
              (let baseFilename = distantMountainFilenames exeData ! nat (filenameIndex mtnTraits) in
               (case placeMountains (random C) cityDef mtnTraits baseFilename st of
                  Inl e \<Rightarrow> Some (Inl e)
                | Inr st1 \<Rightarrow>
                   (case placeClouds (random C) weatherType currentDay exeData st1 of
                      Inl e \<Rightarrow> Some (Inl e)
                    | Inr (r, sky2, tm2) \<Rightarrow>
                       (case (if hasAnimatedDistantLand provinceDef
                              then initAnimatedLand C cityDef exeData (sky2, tm2)
                              else Inr (sky2, tm2)) of
                          Inl e \<Rightarrow> Some (Inl e)
                        | Inr st3 \<Rightarrow>
                            initSpaceObjects C weatherType currentDay starCount exeData r st3))))))))"

section \<open>The states of the aggregate\<close>

text \<open>
  \<open>tick\<close> called \<open>k\<close> times with the same \<open>dt\<close>.
\<close>

primrec tick_n :: "nat \<Rightarrow> real \<Rightarrow> DistantSky \<Rightarrow> (error + DistantSky) option" where
  "tick_n 0 dt sky = Some (Inr sky)"
| "tick_n (Suc k) dt sky =
     (case tick dt sky of
        None \<Rightarrow> None
      | Some (Inl e) \<Rightarrow> Some (Inl e)
      | Some (Inr sky') \<Rightarrow> tick_n k dt sky')"

text \<open>
  The states a \<open>DistantSky\<close> can be in: it is constructed empty, and its only
  non-const members are \<open>init\<close> and \<open>tick\<close> (the objects it hands out are const).
\<close>

inductive reachable :: "'r Collab \<Rightarrow> DistantSky \<Rightarrow> bool" for C :: "'r Collab" where
  reachable_empty: "reachable C emptySky"
| reachable_init: "reachable C sky \<Longrightarrow>
     init C locationDef provinceDef weatherType currentDay starCount exeData (sky, tm) = Some (Inr (sky', tm')) \<Longrightarrow>
     reachable C sky'"
| reachable_tick: "reachable C sky \<Longrightarrow> tick dt sky = Some (Inr sky') \<Longrightarrow> reachable C sky'"

text \<open>
  What holds of every animated land object of a reachable state: less than one frame
  time is accumulated, and the object refers to a texture set of the sky.
\<close>

definition anim_ok :: "DistantSky \<Rightarrow> AnimatedLandObject \<Rightarrow> bool" where
  "anim_ok sky a = (currentFrameTime a < targetFrameTime a
     \<and> 0 \<le> setEntryIndex a \<and> setEntryIndex a < int (length (textureSets sky)))"

text \<open>
  How a phase of \<open>init\<close> may change the two stores and the loader's log: entries are
  appended only, every loader call made goes with one appended entry of that
  identifier, and identifiers that were distinct within a store stay distinct.
\<close>

definition store_grows :: "DistantSky \<times> TextureManager \<Rightarrow> DistantSky \<times> TextureManager \<Rightarrow> bool" where
  "store_grows st st' =
     ((\<exists>ext exts newreq.
          textures (fst st') = textures (fst st) @ ext
        \<and> textureSets (fst st') = textureSets (fst st) @ exts
        \<and> requests (snd st') = requests (snd st) @ newreq
        \<and> mset (map snd newreq) = mset (map tex_filename ext) + mset (map set_filename exts))
      \<and> (distinct (map tex_filename (textures (fst st)))
            \<longrightarrow> distinct (map tex_filename (textures (fst st'))))
      \<and> (distinct (map set_filename (textureSets (fst st)))
            \<longrightarrow> distinct (map set_filename (textureSets (fst st')))))"

text \<open>
  The object collections of a sky as a renderer reads them: counts, texture indices,
  angles, phases and star directions, without the pixel buffers of the stores and the
  colours of the small stars; and the identifiers of the two stores.
\<close>

definition star_shape :: "StarObject \<Rightarrow> int option \<times> Double3" where
  "star_shape s = (case s of SmallStar c d \<Rightarrow> (None, d) | LargeStar i d \<Rightarrow> (Some i, d))"

definition objects_view :: "DistantSky \<Rightarrow>
    LandObject list \<times> AnimatedLandObject list \<times> AirObject list \<times> MoonObject list
    \<times> (int option \<times> Double3) list \<times> int option" where
  "objects_view sky =
     (landObjects sky, animLandObjects sky, airObjects sky, moonObjects sky,
      map star_shape (starObjects sky), sunEntryIndex sky)"

definition names_view :: "DistantSky \<Rightarrow> string list \<times> string list" where
  "names_view sky = (map tex_filename (textures sky), map set_filename (textureSets sky))"

definition same_layout :: "DistantSky \<Rightarrow> DistantSky \<Rightarrow> bool" where
  "same_layout sky1 sky2 = (objects_view sky1 = objects_view sky2 \<and> names_view sky1 = names_view sky2)"

section \<open>Concrete collaborators and inputs\<close>

text \<open>
  Instances of the collaborators, used to run the generator on concrete inputs: a
  sequence source that replays a list of draws and then yields 0, an insertion sort
  for \<open>std::sort\<close>, a loader that returns blank images, and a table of filenames.
\<close>

definition blankBuffer :: Buffer2D where
  "blankBuffer = \<lparr> buf_width = 1, buf_height = 1, buf_data = [0] \<rparr>"

definition scriptNext :: "32 word \<times> 16 word list \<Rightarrow> 16 word \<times> (32 word \<times> 16 word list)" where
  "scriptNext st = (case snd st of [] \<Rightarrow> (0, st) | w # ws \<Rightarrow> (w, (fst st, ws)))"

definition scriptRandom :: "16 word list \<Rightarrow> (32 word \<times> 16 word list) ArenaRandom" where
  "scriptRandom script = \<lparr> rnd_make = (\<lambda>seed. (seed, script)), rnd_next = scriptNext,
     rnd_getSeed = fst, rnd_srand = (\<lambda>seed st. (seed, snd st)) \<rparr>"

fun insertStar :: "Star \<Rightarrow> Star list \<Rightarrow> Star list" where
  "insertStar s [] = [s]"
| "insertStar s (t # ts) = (if star_type t \<le> star_type s then t # insertStar s ts else s # t # ts)"

definition insertionSort :: "Star list \<Rightarrow> Star list" where
  "insertionSort stars = foldl (\<lambda>acc s. insertStar s acc) [] stars"

definition testCollab :: "16 word list \<Rightarrow> (32 word \<times> 16 word list) Collab" where
  "testCollab script = \<lparr> random = scriptRandom script,
     getLocalCityPoint = (\<lambda>seed. (100, 60)),
     getDistance = (\<lambda>p q. \<bar>fst p - fst q\<bar> + \<bar>snd p - snd q\<bar>),
     atan2 = (\<lambda>y x. 0),
     xRotation = (\<lambda>angle v. v),
     yRotation = (\<lambda>angle v. v),
     std_sort = insertionSort,
     defaultPalette = Some (replicate 256 0),
     DEFAULT_FRAME_TIME = 1 / 3 \<rparr>"

definition testExeData :: ExeData where
  "testExeData = \<lparr> distantMountainFilenames = [''MOUNT00.IMG'', ''DSRT0.IMG'', ''TEMP00.IMG''],
     cloudFilename = ''CLOUD00.IMG'',
     animDistantMountainFilenames = [''VOLCA1.DFA'', ''VOLCA2.DFA'', ''VOLCA3.DFA''],
     moonFilenames = [''MOON1.DFA'', ''MOON2.DFA''],
     starFilename = ''STAR1.IMG'',
     sunFilename = ''SUN.IMG'' \<rparr>"

definition testManager :: TextureManager where
  "testManager = \<lparr> make8BitSurface = (\<lambda>name. blankBuffer),
     make8BitSurfaces = (\<lambda>name. replicate 32 blankBuffer),
     requests = [] \<rparr>"

definition testCity :: "ClimateType \<Rightarrow> LocationDefinition" where
  "testCity climate = \<lparr> loc_type = City,
     cityDefinition = \<lparr> climateType = climate, distantSkySeed = 7, citySeed = 9 \<rparr> \<rparr>"




text \<open>
  The state after \<open>init\<close> in overcast weather when the draws are 0 (two mountains),
  then 1 and 511 twice (variant 1, angle unit 511).
\<close>

definition negAngleRun :: "DistantSky \<times> TextureManager" where
  "negAngleRun =
     (emptySky\<lparr>
        landObjects := [\<lparr> land_entryIndex = 0, land_angleRadians = arenaAngleToRadians 511 \<rparr>,
                        \<lparr> land_entryIndex = 0, land_angleRadians = arenaAngleToRadians 511 \<rparr>],
        textures := [\<lparr> tex_filename = ''TEMP01.IMG'', tex_texture = blankBuffer \<rparr>] \<rparr>,
      testManager\<lparr>requests := [(SingleFrame, ''TEMP01.IMG'')]\<rparr>)"

text \<open>
  A multiplicative congruential sequence source whose \<open>getSeed\<close> reports the running
  value, as a generator that keeps one 32-bit state does.
\<close>

definition lcgRandom :: "32 word ArenaRandom" where
  "lcgRandom = \<lparr> rnd_make = (\<lambda>seed. seed),
     rnd_next = (\<lambda>s. (ucast (drop_bit 16 (s * 7143469)), s * 7143469)),
     rnd_getSeed = (\<lambda>s. s),
     rnd_srand = (\<lambda>seed s. seed) \<rparr>"

text \<open>
  The run of the end-to-end scenario: a Temperate city, clear weather, day 0 and 40
  stars, with the draws 1, 3, 5 and then zeros, in a province with animated land.
\<close>

definition clearRun :: "DistantSky \<times> TextureManager" where
  "clearRun = projr (the (init (testCollab [1, 3, 5]) (testCity Temperate)
     \<lparr>hasAnimatedDistantLand = True\<rparr> Clear 0 40 testExeData (emptySky, testManager)))"




text \<open>
  A sky with one animated land object (overcast weather, no stars), and the same sky
  after \<open>tick 1\<close>, which advances the animation by three frames.
\<close>

definition animRun :: "DistantSky \<times> TextureManager" where
  "animRun = projr (the (init (testCollab []) (testCity Temperate)
     \<lparr>hasAnimatedDistantLand = True\<rparr> (OtherWeather 0) 0 0 testExeData (emptySky, testManager)))"

definition tickedSky :: DistantSky where
  "tickedSky = projr (the (tick 1 (fst animRun)))"

text \<open>A table in which the animated land and the sun use the same single-frame image.\<close>

definition sharedNameExeData :: ExeData where
  "sharedNameExeData = testExeData\<lparr>animDistantMountainFilenames := [''SUN.IMG'', ''SUN.IMG'', ''SUN.IMG'']\<rparr>"

text \<open>A second loader and a second palette, with other pixels and other colours.\<close>

definition otherManager :: TextureManager where
  "otherManager = \<lparr> make8BitSurface = (\<lambda>name. \<lparr> buf_width = 2, buf_height = 1, buf_data = [7, 9] \<rparr>),
     make8BitSurfaces = (\<lambda>name. replicate 40 \<lparr> buf_width = 2, buf_height = 1, buf_data = [7, 9] \<rparr>),
     requests = [] \<rparr>"

definition otherPalette :: "32 word list option" where
  "otherPalette = Some (replicate 256 0xFF102030)"

section \<open>Basic facts\<close>

lemma c_mod_nonneg: "0 \<le> a \<Longrightarrow> 0 < b \<Longrightarrow> c_mod a b = a mod b"
  by (cases "a = 0") (simp_all add: c_mod_def)

lemma c_mod_uint_range: "0 < b \<Longrightarrow> 0 \<le> c_mod (uint w) b \<and> c_mod (uint w) b < b"
  by (simp add: c_mod_nonneg)


lemma find_index_of_Some:
  "find_index_of P xs = Some i \<Longrightarrow> i < length xs \<and> P (xs ! i)"
proof (induction xs arbitrary: i)
  case Nil
  then show ?case by simp
next
  case (Cons x xs)
  then show ?case by (auto split: if_splits)
qed

lemma init_cases:
  assumes "init C loc prov w day n exe st = Some (Inr st')"
  obtains k r1 sky1 tm1 r2 sky2 tm2 st3 where
    "loc_type loc = City"
    "find_index_of (\<lambda>pair. fst pair = climateType (cityDefinition loc)) MountainTraits = Some k"
    "placeMountains (random C) (cityDefinition loc) (snd (MountainTraits ! k))
       (distantMountainFilenames exe ! nat (filenameIndex (snd (MountainTraits ! k)))) st = Inr (r1, sky1, tm1)"
    "placeClouds (random C) w day exe (r1, sky1, tm1) = Inr (r2, sky2, tm2)"
    "(if hasAnimatedDistantLand prov then initAnimatedLand C (cityDefinition loc) exe (sky2, tm2)
      else Inr (sky2, tm2)) = Inr st3"
    "initSpaceObjects C w day n exe r2 st3 = Some (Inr st')"
  using assms
  by (auto simp: init_def Let_def split: if_splits option.splits sum.splits prod.splits)

subsection \<open>Running the generator on concrete inputs\<close>

lemma placeStaticObjects_n_numeral:
  "placeStaticObjects_n (numeral k) R b pos var md rh st =
     (case placeStaticObject R b pos var md rh st of
        Inl e \<Rightarrow> Inl e
      | Inr st' \<Rightarrow> placeStaticObjects_n (pred_numeral k) R b pos var md rh st')"
  by (simp add: numeral_eq_Suc)

lemma generateStars_numeral:
  "generateStars R (numeral k) st =
     (case makeStar R st of
        None \<Rightarrow> None
      | Some (star, st') \<Rightarrow>
          (case generateStars R (pred_numeral k) st' of
             None \<Rightarrow> None
           | Some (stars, st'') \<Rightarrow> Some (star # stars, st'')))"
  by (simp add: numeral_eq_Suc)

lemma makeSubStars_numeral:
  "makeSubStars R (numeral k) r =
     (case rnd_next R r of (w1, r1) \<Rightarrow>
      (case rnd_next R r1 of (w2, r2) \<Rightarrow>
       (case rnd_next R r2 of (w3, r3) \<Rightarrow>
        (let subStar = \<lparr> sub_dx = drop_bit 9 (sint w1), sub_dy = drop_bit 9 (sint w2),
                          sub_color = c_mod (uint w3) 10 + 64 \<rparr>
         in (case makeSubStars R (pred_numeral k) r3 of (rest, r') \<Rightarrow> (subStar # rest, r'))))))"
  by (simp add: numeral_eq_Suc)

lemma drawLargeStarType_unfold:
  "drawLargeStarType R planets r =
     (if c_mod (uint (fst (rnd_next R r))) 8 \<ge> 5
         \<and> planets ! nat (c_mod (uint (fst (rnd_next R r))) 8 - 5)
      then drawLargeStarType R planets (snd (rnd_next R r))
      else Some (c_mod (uint (fst (rnd_next R r))) 8, snd (rnd_next R r)))"
  by (subst drawLargeStarType.simps) (simp add: Let_def split: prod.splits)

lemmas run_simps =
  init_def testCity_def testCollab_def testExeData_def testManager_def blankBuffer_def
  scriptRandom_def scriptNext_def MountainTraits_def placeMountains_def placeStaticObjects_def
  placeStaticObjects_n_numeral placeStaticObject_def makeDigits_def makeFilename_def c_mod_def
  to_string_def nat_digits.simps digit_char_def char_of_def bit_Suc_0_iff toUppercase_def
  upper_char_def getTextureEntryIndex_def getTextureSetEntryIndex_def fixEntryIndexIfMissing_def
  loadSurface_def loadSurfaces_def UNIQUE_ANGLES_def placeClouds_def cloudSeed_def emptySky_def
  initAnimatedLand_def mkAnimatedLandObject_def initSpaceObjects_def initMoons_def makeMoon_def
  moonPhaseIndex_def moonIndexOf_def initStars_def sortedStars_def makeStars_def
  generateStars_numeral makeSubStars_numeral drawLargeStarType_unfold makeStar_def
  getRndCoord_def NO_STAR_TYPE_def convertStar_def largeStarFilename_def initSun_def
  insertionSort_def Let_def

subsection \<open>Which collections each phase of init leaves alone\<close>

lemma placeStaticObject_frame:
  "placeStaticObject R b pos var md rh (r, sky, tm) = Inr (r', sky', tm') \<Longrightarrow>
   animLandObjects sky' = animLandObjects sky \<and> moonObjects sky' = moonObjects sky
   \<and> starObjects sky' = starObjects sky \<and> sunEntryIndex sky' = sunEntryIndex sky
   \<and> textureSets sky' = textureSets sky
   \<and> (if rh then landObjects sky' = landObjects sky
               \<and> length (airObjects sky') = Suc (length (airObjects sky))
         else airObjects sky' = airObjects sky
               \<and> length (landObjects sky') = Suc (length (landObjects sky)))"
  by (auto simp: placeStaticObject_def fixEntryIndexIfMissing_def loadSurface_def Let_def
      split: prod.splits sum.splits if_splits option.splits)

lemma placeStaticObjects_n_frame:
  "placeStaticObjects_n n R b pos var md rh (r, sky, tm) = Inr (r', sky', tm') \<Longrightarrow>
   animLandObjects sky' = animLandObjects sky \<and> moonObjects sky' = moonObjects sky
   \<and> starObjects sky' = starObjects sky \<and> sunEntryIndex sky' = sunEntryIndex sky
   \<and> textureSets sky' = textureSets sky
   \<and> (if rh then landObjects sky' = landObjects sky
               \<and> length (airObjects sky') = length (airObjects sky) + n
         else airObjects sky' = airObjects sky
               \<and> length (landObjects sky') = length (landObjects sky) + n)"
proof (induction n arbitrary: r sky tm)
  case 0
  then show ?case by simp
next
  case (Suc n)
  from Suc.prems obtain r1 sky1 tm1 where
    step: "placeStaticObject R b pos var md rh (r, sky, tm) = Inr (r1, sky1, tm1)"
    and rest: "placeStaticObjects_n n R b pos var md rh (r1, sky1, tm1) = Inr (r', sky', tm')"
    by (auto split: sum.splits)
  from placeStaticObject_frame [OF step] Suc.IH [OF rest] show ?case
    by (cases rh) simp_all
qed

lemma initAnimatedLand_frame:
  "initAnimatedLand C cityDef exe (sky, tm) = Inr (sky', tm') \<Longrightarrow>
   landObjects sky' = landObjects sky \<and> airObjects sky' = airObjects sky
   \<and> moonObjects sky' = moonObjects sky \<and> starObjects sky' = starObjects sky
   \<and> sunEntryIndex sky' = sunEntryIndex sky \<and> textures sky' = textures sky"
  by (auto simp: initAnimatedLand_def Let_def loadSurface_def loadSurfaces_def mkAnimatedLandObject_def
      split: prod.splits sum.splits if_splits option.splits)

lemma makeMoon_frame:
  "makeMoon day exe t (sky, tm) = Inr (m, sky', tm') \<Longrightarrow>
   landObjects sky' = landObjects sky \<and> airObjects sky' = airObjects sky
   \<and> animLandObjects sky' = animLandObjects sky \<and> moonObjects sky' = moonObjects sky
   \<and> starObjects sky' = starObjects sky \<and> sunEntryIndex sky' = sunEntryIndex sky
   \<and> textureSets sky' = textureSets sky
   \<and> phasePercent m = real_of_int (moonPhaseIndex day t) / 32 \<and> moon_type m = t"
  by (auto simp: makeMoon_def Let_def loadSurfaces_def
      split: prod.splits sum.splits if_splits option.splits)

lemma initMoons_frame:
  assumes "initMoons day exe (sky, tm) = Inr (sky', tm')"
  shows "landObjects sky' = landObjects sky \<and> airObjects sky' = airObjects sky
   \<and> animLandObjects sky' = animLandObjects sky
   \<and> starObjects sky' = starObjects sky \<and> sunEntryIndex sky' = sunEntryIndex sky
   \<and> textureSets sky' = textureSets sky
   \<and> (\<exists>m1 m2. moonObjects sky' = moonObjects sky @ [m1, m2]
         \<and> phasePercent m1 = real_of_int (moonPhaseIndex day First) / 32 \<and> moon_type m1 = First
         \<and> phasePercent m2 = real_of_int (moonPhaseIndex day Second) / 32 \<and> moon_type m2 = Second)"
proof -
  from assms obtain m1 sky1 tm1 m2 sky2 tm2 where
    a: "makeMoon day exe First (sky, tm) = Inr (m1, sky1, tm1)"
    and b: "makeMoon day exe Second (sky1\<lparr>moonObjects := moonObjects sky1 @ [m1]\<rparr>, tm1) = Inr (m2, sky2, tm2)"
    and c: "sky' = sky2\<lparr>moonObjects := moonObjects sky2 @ [m2]\<rparr>"
    by (auto simp: initMoons_def split: sum.splits prod.splits)
  from makeMoon_frame [OF a] makeMoon_frame [OF b] c show ?thesis by simp
qed

lemma convertStar_frame:
  "convertStar C pal exe star (sky, tm) = Inr (sky', tm') \<Longrightarrow>
   landObjects sky' = landObjects sky \<and> airObjects sky' = airObjects sky
   \<and> animLandObjects sky' = animLandObjects sky \<and> moonObjects sky' = moonObjects sky
   \<and> sunEntryIndex sky' = sunEntryIndex sky \<and> textureSets sky' = textureSets sky"
  by (auto simp: convertStar_def Let_def fixEntryIndexIfMissing_def loadSurface_def
      split: prod.splits sum.splits if_splits option.splits)

lemma convertStars_frame:
  "convertStars C pal exe stars (sky, tm) = Inr (sky', tm') \<Longrightarrow>
   landObjects sky' = landObjects sky \<and> airObjects sky' = airObjects sky
   \<and> animLandObjects sky' = animLandObjects sky \<and> moonObjects sky' = moonObjects sky
   \<and> sunEntryIndex sky' = sunEntryIndex sky \<and> textureSets sky' = textureSets sky"
proof (induction stars arbitrary: sky tm)
  case Nil
  then show ?case by simp
next
  case (Cons star stars)
  from Cons.prems obtain sky1 tm1 where
    a: "convertStar C pal exe star (sky, tm) = Inr (sky1, tm1)"
    and b: "convertStars C pal exe stars (sky1, tm1) = Inr (sky', tm')"
    by (auto split: sum.splits)
  from convertStar_frame [OF a] Cons.IH [OF b] show ?case by simp
qed

lemma initSun_frame:
  "initSun exe (sky, tm) = (sky', tm') \<Longrightarrow>
   landObjects sky' = landObjects sky \<and> airObjects sky' = airObjects sky
   \<and> animLandObjects sky' = animLandObjects sky \<and> moonObjects sky' = moonObjects sky
   \<and> starObjects sky' = starObjects sky \<and> textureSets sky' = textureSets sky
   \<and> sunEntryIndex sky' \<noteq> None"
  by (auto simp: initSun_def Let_def fixEntryIndexIfMissing_def loadSurface_def
      split: prod.splits option.splits)

lemma initSpaceObjects_cases:
  assumes "initSpaceObjects C w day n exe r st = Some (Inr st')"
  obtains "w \<noteq> Clear" "st' = st"
  | st1 stars pal st2 where "w = Clear" "initMoons day exe st = Inr st1"
      "sortedStars C n r = Some stars" "defaultPalette C = Some pal"
      "convertStars C pal exe stars st1 = Inr st2" "initSun exe st2 = st'"
  using assms
  by (auto simp: initSpaceObjects_def initStars_def Let_def
      split: if_splits option.splits sum.splits)

lemma initSpaceObjects_frame:
  assumes "initSpaceObjects C w day n exe r (sky, tm) = Some (Inr (sky', tm'))"
  shows "landObjects sky' = landObjects sky \<and> airObjects sky' = airObjects sky
   \<and> animLandObjects sky' = animLandObjects sky \<and> textureSets sky' = textureSets sky"
  using assms
proof (cases rule: initSpaceObjects_cases)
  case 1
  then show ?thesis by simp
next
  case (2 st1 stars pal st2)
  obtain sky1 tm1 sky2 tm2 where st: "st1 = (sky1, tm1)" "st2 = (sky2, tm2)"
    by (cases st1, cases st2) auto
  from 2 st initMoons_frame [of day exe sky tm sky1 tm1]
    convertStars_frame [of C pal exe stars sky1 tm1 sky2 tm2]
    initSun_frame [of exe sky2 tm2 sky' tm']
  show ?thesis by simp
qed

lemma placeMountains_frame:
  assumes "placeMountains R cityDef mt b (sky, tm) = Inr (r', sky', tm')"
  shows "airObjects sky' = airObjects sky
    \<and> length (landObjects sky') = length (landObjects sky)
         + nat (c_mod (uint (fst (rnd_next R (rnd_make R (distantSkySeed cityDef))))) 4 + 2)
    \<and> animLandObjects sky' = animLandObjects sky \<and> moonObjects sky' = moonObjects sky
    \<and> starObjects sky' = starObjects sky \<and> sunEntryIndex sky' = sunEntryIndex sky
    \<and> textureSets sky' = textureSets sky"
  using assms
  by (auto simp: placeMountains_def placeStaticObjects_def Let_def split: prod.splits
      dest!: placeStaticObjects_n_frame)

lemma placeClouds_frame:
  assumes "placeClouds R w day exe (r, sky, tm) = Inr (r', sky', tm')"
  shows "landObjects sky' = landObjects sky
    \<and> length (airObjects sky') = length (airObjects sky) + (if w = Clear then 7 else 0)
    \<and> animLandObjects sky' = animLandObjects sky \<and> moonObjects sky' = moonObjects sky
    \<and> starObjects sky' = starObjects sky \<and> sunEntryIndex sky' = sunEntryIndex sky
    \<and> textureSets sky' = textureSets sky"
  using assms
  by (auto simp: placeClouds_def placeStaticObjects_def Let_def split: if_splits
      dest!: placeStaticObjects_n_frame)

subsection \<open>What a run in clear weather adds\<close>



subsection \<open>Two concrete runs\<close>

lemma clearRun_ok:
  "init (testCollab [1, 3, 5]) (testCity Temperate) \<lparr>hasAnimatedDistantLand = True\<rparr> Clear 0 40
     testExeData (emptySky, testManager) = Some (Inr (fst clearRun, snd clearRun))"
  by (simp add: clearRun_def run_simps)

lemma negAngleRun_ok:
  "init (testCollab [0, 1, 511, 1, 511]) (testCity Temperate) \<lparr>hasAnimatedDistantLand = False\<rparr>
     (OtherWeather 0) 0 40 testExeData (emptySky, testManager) = Some (Inr (fst negAngleRun, snd negAngleRun))"
  by (simp add: run_simps negAngleRun_def)

lemma animRun_ok:
  "init (testCollab []) (testCity Temperate) \<lparr>hasAnimatedDistantLand = True\<rparr> (OtherWeather 0) 0 0
     testExeData (emptySky, testManager) = Some (Inr (fst animRun, snd animRun))"
  by (simp add: animRun_def run_simps)

section \<open>Angles of land and air objects\<close>

lemma arena_angle_bounds:
  assumes "0 \<le> u" "u < 512"
  shows "- (pi / 2) < arenaAngleToRadians u \<and> arenaAngleToRadians u \<le> 3 * pi / 2"
proof -
  have eq: "arenaAngleToRadians u = 3 * pi / 2 - pi * real_of_int u / 256"
    by (simp add: arenaAngleToRadians_def UNIQUE_ANGLES_def Let_def field_simps)
  have "real_of_int u < 512" using assms by simp
  then have "pi * real_of_int u < pi * 512"
    using pi_gt_zero by (simp add: mult_less_cancel_left_pos)
  then have lt: "pi * real_of_int u / 256 < 2 * pi" by simp
  have "0 \<le> pi * real_of_int u / 256" using assms pi_gt_zero by simp
  with lt show ?thesis unfolding eq by linarith
qed

lemma arena_angle_511: "arenaAngleToRadians 511 < 0"
proof -
  have "arenaAngleToRadians 511 = - (pi * 127 / 256)"
    by (simp add: arenaAngleToRadians_def UNIQUE_ANGLES_def Let_def field_simps)
  then show ?thesis using pi_gt_zero by simp
qed

lemma angle_unit_draw: "arenaAngleToRadians (c_mod (uint w) 512) \<in> arenaAngleToRadians ` {0 ..< 512}"
  using c_mod_uint_range [of 512 w] by (intro imageI) simp

lemma placeStaticObject_angles:
  assumes "placeStaticObject R b pos var md rh (r, sky, tm) = Inr (r', sky', tm')"
  shows "\<exists>newLand newAir. landObjects sky' = landObjects sky @ newLand
           \<and> airObjects sky' = airObjects sky @ newAir
           \<and> (\<forall>x \<in> set newLand. land_angleRadians x \<in> arenaAngleToRadians ` {0 ..< 512})
           \<and> (\<forall>x \<in> set newAir. air_angleRadians x \<in> arenaAngleToRadians ` {0 ..< 512})"
  using assms
  by (auto simp: placeStaticObject_def fixEntryIndexIfMissing_def loadSurface_def Let_def
      UNIQUE_ANGLES_def angle_unit_draw
      split: prod.splits sum.splits if_splits option.splits)

lemma placeStaticObjects_n_angles:
  "placeStaticObjects_n n R b pos var md rh (r, sky, tm) = Inr (r', sky', tm') \<Longrightarrow>
   \<exists>newLand newAir. landObjects sky' = landObjects sky @ newLand
           \<and> airObjects sky' = airObjects sky @ newAir
           \<and> (\<forall>x \<in> set newLand. land_angleRadians x \<in> arenaAngleToRadians ` {0 ..< 512})
           \<and> (\<forall>x \<in> set newAir. air_angleRadians x \<in> arenaAngleToRadians ` {0 ..< 512})"
proof (induction n arbitrary: r sky tm)
  case 0
  then show ?case by simp
next
  case (Suc n)
  from Suc.prems obtain r1 sky1 tm1 where
    step: "placeStaticObject R b pos var md rh (r, sky, tm) = Inr (r1, sky1, tm1)"
    and rest: "placeStaticObjects_n n R b pos var md rh (r1, sky1, tm1) = Inr (r', sky', tm')"
    by (auto split: sum.splits)
  from placeStaticObject_angles [OF step] obtain l1 a1 where
    h1: "landObjects sky1 = landObjects sky @ l1" "airObjects sky1 = airObjects sky @ a1"
      "\<forall>x \<in> set l1. land_angleRadians x \<in> arenaAngleToRadians ` {0 ..< 512}"
      "\<forall>x \<in> set a1. air_angleRadians x \<in> arenaAngleToRadians ` {0 ..< 512}" by blast
  from Suc.IH [OF rest] obtain l2 a2 where
    h2: "landObjects sky' = landObjects sky1 @ l2" "airObjects sky' = airObjects sky1 @ a2"
      "\<forall>x \<in> set l2. land_angleRadians x \<in> arenaAngleToRadians ` {0 ..< 512}"
      "\<forall>x \<in> set a2. air_angleRadians x \<in> arenaAngleToRadians ` {0 ..< 512}" by blast
  show ?case
    by (rule exI [of _ "l1 @ l2"], rule exI [of _ "a1 @ a2"]) (use h1 h2 in auto)
qed

lemma placeMountains_angles:
  assumes "placeMountains R cityDef mt b (sky, tm) = Inr (r', sky', tm')"
  shows "\<exists>newLand newAir. landObjects sky' = landObjects sky @ newLand
           \<and> airObjects sky' = airObjects sky @ newAir
           \<and> (\<forall>x \<in> set newLand. land_angleRadians x \<in> arenaAngleToRadians ` {0 ..< 512})
           \<and> (\<forall>x \<in> set newAir. air_angleRadians x \<in> arenaAngleToRadians ` {0 ..< 512})"
  using assms
  by (auto simp: placeMountains_def placeStaticObjects_def Let_def split: prod.splits
      dest!: placeStaticObjects_n_angles)

lemma placeClouds_angles:
  assumes "placeClouds R w day exe (r, sky, tm) = Inr (r', sky', tm')"
  shows "\<exists>newLand newAir. landObjects sky' = landObjects sky @ newLand
           \<and> airObjects sky' = airObjects sky @ newAir
           \<and> (\<forall>x \<in> set newLand. land_angleRadians x \<in> arenaAngleToRadians ` {0 ..< 512})
           \<and> (\<forall>x \<in> set newAir. air_angleRadians x \<in> arenaAngleToRadians ` {0 ..< 512})"
  using assms
  by (auto simp: placeClouds_def placeStaticObjects_def Let_def split: prod.splits if_splits
      dest!: placeStaticObjects_n_angles)

lemma init_angles_aux:
  assumes "init C loc prov w day n exe (sky, tm) = Some (Inr (sky', tm'))"
  shows "\<exists>newLand newAir. landObjects sky' = landObjects sky @ newLand
           \<and> airObjects sky' = airObjects sky @ newAir
           \<and> (\<forall>x \<in> set newLand. land_angleRadians x \<in> arenaAngleToRadians ` {0 ..< 512})
           \<and> (\<forall>x \<in> set newAir. air_angleRadians x \<in> arenaAngleToRadians ` {0 ..< 512})"
proof -
  from assms obtain k r1 sky1 tm1 r2 sky2 tm2 st3 where
    m: "placeMountains (random C) (cityDefinition loc) (snd (MountainTraits ! k))
       (distantMountainFilenames exe ! nat (filenameIndex (snd (MountainTraits ! k)))) (sky, tm) = Inr (r1, sky1, tm1)"
    and c: "placeClouds (random C) w day exe (r1, sky1, tm1) = Inr (r2, sky2, tm2)"
    and a: "(if hasAnimatedDistantLand prov then initAnimatedLand C (cityDefinition loc) exe (sky2, tm2)
      else Inr (sky2, tm2)) = Inr st3"
    and s: "initSpaceObjects C w day n exe r2 st3 = Some (Inr (sky', tm'))"
    by (rule init_cases)
  obtain sky3 tm3 where st3: "st3 = (sky3, tm3)" by (cases st3)
  from placeMountains_angles [OF m] obtain l1 a1 where
    h1: "landObjects sky1 = landObjects sky @ l1" "airObjects sky1 = airObjects sky @ a1"
      "\<forall>x \<in> set l1. land_angleRadians x \<in> arenaAngleToRadians ` {0 ..< 512}"
      "\<forall>x \<in> set a1. air_angleRadians x \<in> arenaAngleToRadians ` {0 ..< 512}" by blast
  from placeClouds_angles [OF c] obtain l2 a2 where
    h2: "landObjects sky2 = landObjects sky1 @ l2" "airObjects sky2 = airObjects sky1 @ a2"
      "\<forall>x \<in> set l2. land_angleRadians x \<in> arenaAngleToRadians ` {0 ..< 512}"
      "\<forall>x \<in> set a2. air_angleRadians x \<in> arenaAngleToRadians ` {0 ..< 512}" by blast
  have h3: "landObjects sky3 = landObjects sky2 \<and> airObjects sky3 = airObjects sky2"
    using a st3 by (auto split: if_splits dest: initAnimatedLand_frame)
  have h4: "landObjects sky' = landObjects sky3 \<and> airObjects sky' = airObjects sky3"
    using s st3 by (auto dest: initSpaceObjects_frame)
  show ?thesis
    by (rule exI [of _ "l1 @ l2"], rule exI [of _ "a1 @ a2"]) (use h1 h2 h3 h4 in auto)
qed


text \<open>
  C2, as the code has it: every angle that \<open>init\<close> stores in a land or air object is
  \<open>(2\<pi> - 2\<pi>u/512) - \<pi>/2\<close> for an angle unit \<open>u\<close> in \<open>[0, 512)\<close>, and such a value
  lies in \<open>(-\<pi>/2, 3\<pi>/2]\<close>; the code does not normalise it into \<open>[0, 2\<pi>)\<close>.
\<close>

theorem init_angle_units:
  assumes "init C loc prov w day n exe (sky, tm) = Some (Inr (sky', tm'))"
  shows "\<exists>newLand newAir.
           landObjects sky' = landObjects sky @ newLand
         \<and> airObjects sky' = airObjects sky @ newAir
         \<and> (\<forall>x \<in> set newLand. \<exists>u. 0 \<le> u \<and> u < 512
               \<and> land_angleRadians x = arenaAngleToRadians u
               \<and> - (pi / 2) < land_angleRadians x \<and> land_angleRadians x \<le> 3 * pi / 2)
         \<and> (\<forall>x \<in> set newAir. \<exists>u. 0 \<le> u \<and> u < 512
               \<and> air_angleRadians x = arenaAngleToRadians u
               \<and> - (pi / 2) < air_angleRadians x \<and> air_angleRadians x \<le> 3 * pi / 2)"
proof -
  from init_angles_aux [OF assms] obtain newLand newAir where
    h: "landObjects sky' = landObjects sky @ newLand" "airObjects sky' = airObjects sky @ newAir"
      "\<forall>x \<in> set newLand. land_angleRadians x \<in> arenaAngleToRadians ` {0 ..< 512}"
      "\<forall>x \<in> set newAir. air_angleRadians x \<in> arenaAngleToRadians ` {0 ..< 512}"
    by blast
  have unit: "\<exists>u. 0 \<le> u \<and> u < 512 \<and> a = arenaAngleToRadians u
                \<and> - (pi / 2) < a \<and> a \<le> 3 * pi / 2"
    if "a \<in> arenaAngleToRadians ` {0 ..< 512}" for a
  proof -
    from that obtain u where u: "0 \<le> u" "u < 512" "a = arenaAngleToRadians u" by auto
    with arena_angle_bounds [of u] show ?thesis by blast
  qed
  show ?thesis
    by (rule exI [of _ newLand], rule exI [of _ newAir]) (use h unit in blast)
qed

theorem init_angle_units_witness:
  "init (testCollab [0, 1, 511, 1, 511]) (testCity Temperate) \<lparr>hasAnimatedDistantLand = False\<rparr>
     (OtherWeather 0) 0 40 testExeData (emptySky, testManager) = Some (Inr negAngleRun)
   \<and> (\<exists>newLand newAir.
           landObjects (fst negAngleRun) = landObjects emptySky @ newLand
         \<and> airObjects (fst negAngleRun) = airObjects emptySky @ newAir
         \<and> (\<forall>x \<in> set newLand. \<exists>u. 0 \<le> u \<and> u < 512
               \<and> land_angleRadians x = arenaAngleToRadians u
               \<and> - (pi / 2) < land_angleRadians x \<and> land_angleRadians x \<le> 3 * pi / 2)
         \<and> (\<forall>x \<in> set newAir. \<exists>u. 0 \<le> u \<and> u < 512
               \<and> air_angleRadians x = arenaAngleToRadians u
               \<and> - (pi / 2) < air_angleRadians x \<and> air_angleRadians x \<le> 3 * pi / 2))"
proof -
  have run: "init (testCollab [0, 1, 511, 1, 511]) (testCity Temperate) \<lparr>hasAnimatedDistantLand = False\<rparr>
     (OtherWeather 0) 0 40 testExeData (emptySky, testManager) = Some (Inr (fst negAngleRun, snd negAngleRun))"
    by (simp add: run_simps negAngleRun_def)
  from init_angle_units [OF run] run show ?thesis by simp
qed

text \<open>
  The claim as stated fails: a draw of 511 for the angle unit gives a land object whose
  angle is negative, outside \<open>[0, 2\<pi>)\<close>.
\<close>

theorem init_angle_range_counterexample:
  "init (testCollab [0, 1, 511, 1, 511]) (testCity Temperate) \<lparr>hasAnimatedDistantLand = False\<rparr>
     (OtherWeather 0) 0 40 testExeData (emptySky, testManager) = Some (Inr negAngleRun)
   \<and> map land_angleRadians (landObjects (fst negAngleRun)) = [arenaAngleToRadians 511, arenaAngleToRadians 511]
   \<and> \<not> (0 \<le> arenaAngleToRadians 511 \<and> arenaAngleToRadians 511 < 2 * pi)"
  using arena_angle_511 by (simp add: run_simps negAngleRun_def)

section \<open>Clouds\<close>

text \<open>
  C5, as the code has it: clouds are placed only in clear weather, and immediately
  before placing them \<open>init\<close> reseeds the sequence source with
  \<open>getSeed() + (currentDay % 32)\<close>, where \<open>getSeed()\<close> is read from the source as the
  mountain placement left it.
\<close>

theorem init_cloud_reseed:
  assumes "init C loc prov w day n exe (sky, tm) = Some (Inr (sky', tm'))"
  shows "(w \<noteq> Clear \<longrightarrow> airObjects sky' = airObjects sky)
    \<and> (w = Clear \<longrightarrow>
         (\<exists>k r1 sky1 tm1 r2 sky2 tm2.
            placeMountains (random C) (cityDefinition loc) (snd (MountainTraits ! k))
              (distantMountainFilenames exe ! nat (filenameIndex (snd (MountainTraits ! k))))
              (sky, tm) = Inr (r1, sky1, tm1)
          \<and> placeStaticObjects (random C) 7 (cloudFilename exe) 5 17 2 True
              (rnd_srand (random C)
                 (rnd_getSeed (random C) r1 + word_of_int (c_mod day 32)) r1, sky1, tm1)
              = Inr (r2, sky2, tm2)
          \<and> airObjects sky' = airObjects sky2))"
proof -
  from assms obtain k r1 sky1 tm1 r2 sky2 tm2 st3 where
    m: "placeMountains (random C) (cityDefinition loc) (snd (MountainTraits ! k))
       (distantMountainFilenames exe ! nat (filenameIndex (snd (MountainTraits ! k)))) (sky, tm) = Inr (r1, sky1, tm1)"
    and c: "placeClouds (random C) w day exe (r1, sky1, tm1) = Inr (r2, sky2, tm2)"
    and a: "(if hasAnimatedDistantLand prov then initAnimatedLand C (cityDefinition loc) exe (sky2, tm2)
      else Inr (sky2, tm2)) = Inr st3"
    and s: "initSpaceObjects C w day n exe r2 st3 = Some (Inr (sky', tm'))"
    by (rule init_cases)
  obtain sky3 tm3 where st3: "st3 = (sky3, tm3)" by (cases st3)
  have h3: "airObjects sky3 = airObjects sky2"
    using a st3 by (auto split: if_splits dest: initAnimatedLand_frame)
  have h4: "airObjects sky' = airObjects sky3"
    using s st3 by (auto dest: initSpaceObjects_frame)
  have h1: "airObjects sky1 = airObjects sky"
    using placeMountains_frame [OF m] by simp
  show ?thesis
  proof (intro conjI impI)
    assume "w \<noteq> Clear"
    with c have "sky2 = sky1" by (simp add: placeClouds_def)
    with h1 h3 h4 show "airObjects sky' = airObjects sky" by simp
  next
    assume "w = Clear"
    with c have "placeStaticObjects (random C) 7 (cloudFilename exe) 5 17 2 True
              (rnd_srand (random C)
                 (rnd_getSeed (random C) r1 + word_of_int (c_mod day 32)) r1, sky1, tm1)
              = Inr (r2, sky2, tm2)"
      by (simp add: placeClouds_def cloudSeed_def)
    with m h3 h4 show "\<exists>k r1 sky1 tm1 r2 sky2 tm2.
            placeMountains (random C) (cityDefinition loc) (snd (MountainTraits ! k))
              (distantMountainFilenames exe ! nat (filenameIndex (snd (MountainTraits ! k))))
              (sky, tm) = Inr (r1, sky1, tm1)
          \<and> placeStaticObjects (random C) 7 (cloudFilename exe) 5 17 2 True
              (rnd_srand (random C)
                 (rnd_getSeed (random C) r1 + word_of_int (c_mod day 32)) r1, sky1, tm1)
              = Inr (r2, sky2, tm2)
          \<and> airObjects sky' = airObjects sky2"
      by (metis (no_types))
  qed
qed

theorem init_cloud_reseed_witness:
  "init (testCollab [1, 3, 5]) (testCity Temperate) \<lparr>hasAnimatedDistantLand = True\<rparr> Clear 0 40
     testExeData (emptySky, testManager) = Some (Inr (fst clearRun, snd clearRun))
   \<and> (\<exists>k r1 sky1 tm1 r2 sky2 tm2.
            placeMountains (random (testCollab [1, 3, 5])) (cityDefinition (testCity Temperate))
              (snd (MountainTraits ! k))
              (distantMountainFilenames testExeData ! nat (filenameIndex (snd (MountainTraits ! k))))
              (emptySky, testManager) = Inr (r1, sky1, tm1)
          \<and> placeStaticObjects (random (testCollab [1, 3, 5])) 7 (cloudFilename testExeData) 5 17 2 True
              (rnd_srand (random (testCollab [1, 3, 5]))
                 (rnd_getSeed (random (testCollab [1, 3, 5])) r1 + word_of_int (c_mod 0 32)) r1, sky1, tm1)
              = Inr (r2, sky2, tm2)
          \<and> airObjects (fst clearRun) = airObjects sky2)
   \<and> init (testCollab [0, 1, 511, 1, 511]) (testCity Temperate) \<lparr>hasAnimatedDistantLand = False\<rparr>
     (OtherWeather 0) 0 40 testExeData (emptySky, testManager) = Some (Inr (fst negAngleRun, snd negAngleRun))
   \<and> OtherWeather 0 \<noteq> Clear
   \<and> airObjects (fst negAngleRun) = airObjects emptySky"
  using init_cloud_reseed [OF clearRun_ok] init_cloud_reseed [OF negAngleRun_ok] clearRun_ok negAngleRun_ok
  by simp

text \<open>
  The claim as stated fails for a sequence source whose \<open>getSeed\<close> reports its running
  value: after the mountain draws from seed 7 on day 0 the clouds are seeded with
  304664851, not with the seed generation started with.
\<close>

theorem cloud_reseed_counterexample:
  "map_sum id (\<lambda>st. cloudSeed lcgRandom 0 (fst st))
     (placeMountains lcgRandom (cityDefinition (testCity Temperate)) (snd (MountainTraits ! 0))
        (distantMountainFilenames testExeData ! 2) (emptySky, testManager)) = Inr 304664851
   \<and> spec_cloudSeed (cityDefinition (testCity Temperate)) 0 = 7
   \<and> (304664851 :: 32 word) \<noteq> 7"
  by (simp add: run_simps lcgRandom_def spec_cloudSeed_def)

section \<open>The end-to-end scenario\<close>




section \<open>The star list\<close>

lemma drawLargeStarType_result:
  assumes "drawLargeStarType R planets r = Some res"
  shows "0 \<le> fst res \<and> fst res < 8 \<and> \<not> (5 \<le> fst res \<and> planets ! nat (fst res - 5))"
  using assms
proof (rule drawLargeStarType.raw_induct [where P = "\<lambda>R planets r res.
    0 \<le> fst res \<and> fst res < 8 \<and> \<not> (5 \<le> fst res \<and> planets ! nat (fst res - 5))", rotated])
  fix dl R planets r res
  assume IH: "\<And>R planets r res. dl R planets r = Some res \<Longrightarrow>
      0 \<le> fst res \<and> fst res < 8 \<and> \<not> (5 \<le> fst res \<and> planets ! nat (fst res - 5))"
    and eq: "(case rnd_next R r of (w, r') \<Rightarrow>
        let v = c_mod (uint w) 8
        in if 5 \<le> v \<and> planets ! nat (v - 5) then dl R planets r' else Some (v, r')) = Some res"
  obtain w r' where n: "rnd_next R r = (w, r')" by (cases "rnd_next R r")
  show "0 \<le> fst res \<and> fst res < 8 \<and> \<not> (5 \<le> fst res \<and> planets ! nat (fst res - 5))"
  proof (cases "5 \<le> c_mod (uint w) 8 \<and> planets ! nat (c_mod (uint w) 8 - 5)")
    case True
    with eq n have "dl R planets r' = Some res" by (simp add: Let_def)
    then show ?thesis by (rule IH)
  next
    case False
    with eq n have "res = (c_mod (uint w) 8, r')" by (auto simp: Let_def)
    with False c_mod_uint_range [of 8 w] show ?thesis by simp
  qed
qed

lemma makeStar_result:
  assumes "makeStar R (r, planets) = Some (star, r', planets')"
  shows "(star_type star = - 1 \<and> planets' = planets)
       \<or> (0 \<le> star_type star \<and> star_type star < 5 \<and> planets' = planets)
       \<or> (5 \<le> star_type star \<and> star_type star < 8 \<and> \<not> planets ! nat (star_type star - 5)
            \<and> planets' = planets[nat (star_type star - 5) := True])"
  using assms
  by (auto simp: makeStar_def Let_def NO_STAR_TYPE_def
      split: prod.splits if_splits option.splits dest!: drawLargeStarType_result)


lemma generateStars_planets:
  assumes "generateStars R n (r, planets) = Some (stars, r', planets')"
  shows "(\<forall>i. planets ! i \<longrightarrow> i < length planets \<longrightarrow> planets' ! i)
       \<and> length planets' = length planets
       \<and> (\<forall>s \<in> set stars. star_type s = - 1 \<or> (0 \<le> star_type s \<and> star_type s < 8))
       \<and> (length planets = 3 \<longrightarrow>
            (\<forall>s \<in> set stars. 5 \<le> star_type s \<longrightarrow>
               \<not> planets ! nat (star_type s - 5) \<and> planets' ! nat (star_type s - 5))
          \<and> distinct (filter (\<lambda>t. 5 \<le> t) (map star_type stars)))"
  using assms
proof (induction n arbitrary: r planets stars)
  case 0
  then show ?case by simp
next
  case (Suc n)
  from Suc.prems obtain star r1 planets1 rest where
    a: "makeStar R (r, planets) = Some (star, r1, planets1)"
    and b: "generateStars R n (r1, planets1) = Some (rest, r', planets')"
    and c: "stars = star # rest"
    by (auto split: option.splits prod.splits)
  note ih = Suc.IH [OF b]
  note ms = makeStar_result [OF a]
  have len1: "length planets1 = length planets" using ms by auto
  have upd: "(planets[k := True]) ! i" if "planets ! i" for k i
    using that by (cases "k < length planets") (auto simp: nth_list_update list_update_beyond)
  have mono1: "\<forall>i. planets ! i \<longrightarrow> i < length planets \<longrightarrow> planets1 ! i"
    using ms upd by auto
  have mono: "\<forall>i. planets ! i \<longrightarrow> i < length planets \<longrightarrow> planets' ! i"
    using mono1 ih len1 by auto
  have len: "length planets' = length planets" using ih len1 by simp
  have types: "\<forall>s \<in> set stars. star_type s = - 1 \<or> (0 \<le> star_type s \<and> star_type s < 8)"
    using ms ih c by auto
  have planet_part: "(\<forall>s \<in> set stars. 5 \<le> star_type s \<longrightarrow>
               \<not> planets ! nat (star_type s - 5) \<and> planets' ! nat (star_type s - 5))
          \<and> distinct (filter (\<lambda>t. 5 \<le> t) (map star_type stars))"
    if l3: "length planets = 3"
  proof -
    have l31: "length planets1 = 3" using len1 l3 by simp
    from ih l31 have rest_slots: "\<forall>s \<in> set rest. 5 \<le> star_type s \<longrightarrow>
               \<not> planets1 ! nat (star_type s - 5) \<and> planets' ! nat (star_type s - 5)"
      and rest_distinct: "distinct (filter (\<lambda>t. 5 \<le> t) (map star_type rest))"
      by auto
    have rest_types: "\<forall>s \<in> set rest. star_type s = - 1 \<or> (0 \<le> star_type s \<and> star_type s < 8)"
      using ih by auto
    have rest_old: "\<not> planets ! nat (star_type s - 5)" if "s \<in> set rest" "5 \<le> star_type s" for s
    proof
      assume p: "planets ! nat (star_type s - 5)"
      from that rest_types have "nat (star_type s - 5) < 3" by auto
      with p mono1 l3 have "planets1 ! nat (star_type s - 5)" by simp
      with that rest_slots show False by blast
    qed
    show ?thesis
    proof (cases "5 \<le> star_type star")
      case False
      with rest_slots rest_distinct rest_old c show ?thesis by auto
    next
      case True
      with ms have st: "star_type star < 8" "\<not> planets ! nat (star_type star - 5)"
        "planets1 = planets[nat (star_type star - 5) := True]" by auto
      from True st l3 have set1: "planets1 ! nat (star_type star - 5)" by simp
      from True st l31 ih have set': "planets' ! nat (star_type star - 5)" by auto
      have fresh: "star_type star \<notin> set (filter (\<lambda>t. 5 \<le> t) (map star_type rest))"
      proof
        assume "star_type star \<in> set (filter (\<lambda>t. 5 \<le> t) (map star_type rest))"
        then obtain s where "s \<in> set rest" "star_type s = star_type star" by auto
        with rest_slots True set1 show False by auto
      qed
      from True st set' fresh rest_slots rest_distinct rest_old c show ?thesis by auto
    qed
  qed
  from mono len types planet_part show ?case by blast
qed

lemma makeStars_planets:
  assumes "makeStars R n r = Some (stars, st)"
  shows "distinct (filter (\<lambda>t. 5 \<le> t) (map star_type stars))
       \<and> (\<forall>s \<in> set stars. star_type s = - 1 \<or> (0 \<le> star_type s \<and> star_type s < 8))"
proof -
  obtain r' planets' where st: "st = (r', planets')" by (cases st)
  from assms st generateStars_planets [of R "nat n" "rnd_srand R 0x12345679 r" "[False, False, False]" stars r' planets']
  show ?thesis by (simp add: makeStars_def)
qed


lemma insertStar_mset: "mset (insertStar s ts) = add_mset s (mset ts)"
  by (induction ts) auto

lemma insertStar_sorted:
  "sorted_wrt (\<lambda>a b. \<not> star_type b < star_type a) ts \<Longrightarrow>
   sorted_wrt (\<lambda>a b. \<not> star_type b < star_type a) (insertStar s ts)"
proof (induction ts)
  case Nil
  then show ?case by simp
next
  case (Cons t ts)
  have "set (insertStar s ts) = insert s (set ts)"
    using insertStar_mset [of s ts] by (metis set_mset_add_mset_insert set_mset_mset)
  with Cons show ?case by auto
qed

lemma insertionSort_contract: "std_sort_contract insertionSort"
proof -
  have m: "mset (foldl (\<lambda>acc s. insertStar s acc) acc xs) = mset acc + mset xs" for acc xs
    by (induction xs arbitrary: acc) (simp_all add: insertStar_mset)
  have s: "sorted_wrt (\<lambda>a b. \<not> star_type b < star_type a) acc \<Longrightarrow>
     sorted_wrt (\<lambda>a b. \<not> star_type b < star_type a) (foldl (\<lambda>acc s. insertStar s acc) acc xs)" for acc xs
    by (induction xs arbitrary: acc) (simp_all add: insertStar_sorted)
  show ?thesis using m [of "[]"] s [of "[]"] by (simp add: std_sort_contract_def insertionSort_def)
qed





lemma sortedStars_cases:
  assumes "sortedStars C n r = Some stars"
  obtains raw st where "makeStars (random C) n r = Some (raw, st)" "stars = std_sort C raw"
  using assms by (auto simp: sortedStars_def split: option.splits)

lemma mixedStars_run:
  "makeStars (scriptRandom []) 3
     (0, [0, 0, 0, 0, 5, 0, 0, 0, 1, 0, 1, 2, 3, 4, 5, 6, 0, 0, 0, 0, 5, 3])
   = Some ([\<lparr> star_x = 2048, star_y = 2048, star_z = 2048, subList = [], star_type = 5 \<rparr>,
            \<lparr> star_x = 2048, star_y = 2048, star_z = 2048,
               subList = [\<lparr> sub_dx = 0, sub_dy = 0, sub_color = 67 \<rparr>,
                          \<lparr> sub_dx = 0, sub_dy = 0, sub_color = 70 \<rparr>], star_type = - 1 \<rparr>,
            \<lparr> star_x = 2048, star_y = 2048, star_z = 2048, subList = [], star_type = 3 \<rparr>],
           (305419897, []), [True, False, False])"
  by (simp add: run_simps)






text \<open>
  C7: no two stars of a generated star list carry the same type in the planet range
  \<open>[5, 8)\<close>, before the sort and (for a sort that permutes) after it; types in
  \<open>[0, 5)\<close> can repeat, as the two stars of type 0 of the last run show.
\<close>

theorem planet_types_unique:
  "(makeStars R n r = Some (stars, st)
      \<longrightarrow> distinct (filter (\<lambda>t. 5 \<le> t) (map star_type stars)))
   \<and> (std_sort_contract (std_sort C) \<and> sortedStars C n' r' = Some sortedList
      \<longrightarrow> distinct (filter (\<lambda>t. 5 \<le> t) (map star_type sortedList)))
   \<and> map star_type (fst (the (makeStars (scriptRandom []) 2 (0, [])))) = [0, 0]"
proof (intro conjI impI)
  assume "makeStars R n r = Some (stars, st)"
  from makeStars_planets [OF this]
  show "distinct (filter (\<lambda>t. 5 \<le> t) (map star_type stars))" by simp
next
  assume a: "std_sort_contract (std_sort C) \<and> sortedStars C n' r' = Some sortedList"
  then obtain raw st' where raw: "makeStars (random C) n' r' = Some (raw, st')"
    and st: "sortedList = std_sort C raw" by (auto elim: sortedStars_cases)
  from a st have "mset sortedList = mset raw" by (simp add: std_sort_contract_def)
  then have "mset (filter (\<lambda>t. 5 \<le> t) (map star_type sortedList))
      = mset (filter (\<lambda>t. 5 \<le> t) (map star_type raw))"
    by (metis mset_filter mset_map)
  moreover have "distinct (filter (\<lambda>t. 5 \<le> t) (map star_type raw))"
    using makeStars_planets [OF raw] by simp
  ultimately show "distinct (filter (\<lambda>t. 5 \<le> t) (map star_type sortedList))"
    by (metis mset_eq_imp_distinct_iff)
next
  show "map star_type (fst (the (makeStars (scriptRandom []) 2 (0, [])))) = [0, 0]"
    by (simp add: run_simps)
qed

theorem planet_types_unique_witness:
  "makeStars (scriptRandom []) 3
     (0, [0, 0, 0, 0, 5, 0, 0, 0, 1, 0, 1, 2, 3, 4, 5, 6, 0, 0, 0, 0, 5, 3])
   = Some ([\<lparr> star_x = 2048, star_y = 2048, star_z = 2048, subList = [], star_type = 5 \<rparr>,
            \<lparr> star_x = 2048, star_y = 2048, star_z = 2048,
               subList = [\<lparr> sub_dx = 0, sub_dy = 0, sub_color = 67 \<rparr>,
                          \<lparr> sub_dx = 0, sub_dy = 0, sub_color = 70 \<rparr>], star_type = - 1 \<rparr>,
            \<lparr> star_x = 2048, star_y = 2048, star_z = 2048, subList = [], star_type = 3 \<rparr>],
           (305419897, []), [True, False, False])
   \<and> distinct (filter (\<lambda>t. 5 \<le> t) (map star_type
         [\<lparr> star_x = 2048, star_y = 2048, star_z = 2048, subList = [], star_type = 5 \<rparr>,
            \<lparr> star_x = 2048, star_y = 2048, star_z = 2048,
               subList = [\<lparr> sub_dx = 0, sub_dy = 0, sub_color = 67 \<rparr>,
                          \<lparr> sub_dx = 0, sub_dy = 0, sub_color = 70 \<rparr>], star_type = - 1 \<rparr>,
            \<lparr> star_x = 2048, star_y = 2048, star_z = 2048, subList = [], star_type = 3 \<rparr>]))
   \<and> std_sort_contract (std_sort (testCollab []))
   \<and> sortedStars (testCollab []) 2 (0, []) = Some (the (sortedStars (testCollab []) 2 (0, [])))
   \<and> distinct (filter (\<lambda>t. 5 \<le> t) (map star_type (the (sortedStars (testCollab []) 2 (0, [])))))"
proof -
  have c: "std_sort_contract (std_sort (testCollab []))"
    using insertionSort_contract by (simp add: testCollab_def)
  have s: "sortedStars (testCollab []) 2 (0, []) = Some (the (sortedStars (testCollab []) 2 (0, [])))"
    by (simp add: run_simps)
  from planet_types_unique [of "scriptRandom []" 3
      "(0, [0, 0, 0, 0, 5, 0, 0, 0, 1, 0, 1, 2, 3, 4, 5, 6, 0, 0, 0, 0, 5, 3])" _ _
      "testCollab []" 2 "(0, [])" "the (sortedStars (testCollab []) 2 (0, []))"]
    mixedStars_run c s
  show ?thesis by simp
qed

section \<open>tick with a zero time step\<close>

lemma update_while_exit:
  assumes "update_while n a = Some y"
  shows "currentFrameTime y < targetFrameTime y \<and> setEntryIndex y = setEntryIndex a"
  using assms
proof (rule update_while.raw_induct [where P = "\<lambda>n a y.
    currentFrameTime y < targetFrameTime y \<and> setEntryIndex y = setEntryIndex a", rotated])
  fix uw n a y
  assume IH: "\<And>n a y. uw n a = Some y \<Longrightarrow>
      currentFrameTime y < targetFrameTime y \<and> setEntryIndex y = setEntryIndex a"
    and eq: "(if targetFrameTime a \<le> currentFrameTime a
      then uw n (a\<lparr>currentFrameTime := currentFrameTime a - targetFrameTime a,
                 index := if index a < n - 1 then index a + 1 else 0\<rparr>)
      else Some a) = Some y"
  show "currentFrameTime y < targetFrameTime y \<and> setEntryIndex y = setEntryIndex a"
  proof (cases "targetFrameTime a \<le> currentFrameTime a")
    case True
    with eq IH [of n "a\<lparr>currentFrameTime := currentFrameTime a - targetFrameTime a,
                 index := if index a < n - 1 then index a + 1 else 0\<rparr>" y]
    show ?thesis by simp
  next
    case False
    with eq show ?thesis by auto
  qed
qed

lemma update_ok:
  assumes "update dt sky a = Some (Inr a')" "anim_ok sky a"
  shows "anim_ok sky a'"
  using assms
  by (auto simp: update_def anim_ok_def getTextureSetCount_def
      split: sum.splits if_splits dest!: update_while_exit)

lemma tick_objs_ok:
  "tick_objs dt sky as = Some (Inr as') \<Longrightarrow> \<forall>a \<in> set as. anim_ok sky a \<Longrightarrow>
   \<forall>a \<in> set as'. anim_ok sky a"
proof (induction as arbitrary: as')
  case Nil
  then show ?case by simp
next
  case (Cons a as)
  from Cons.prems(1) obtain a' rest where
    u: "update dt sky a = Some (Inr a')" and t: "tick_objs dt sky as = Some (Inr rest)"
    and e: "as' = a' # rest"
    by (auto split: option.splits sum.splits)
  from update_ok [OF u] Cons.prems(2) have "anim_ok sky a'" by simp
  moreover from Cons.IH [OF t] Cons.prems(2) have "\<forall>a \<in> set rest. anim_ok sky a" by simp
  ultimately show ?case using e by simp
qed

lemma tick_ok:
  assumes "tick dt sky = Some (Inr sky')" "\<forall>a \<in> set (animLandObjects sky). anim_ok sky a"
  shows "\<forall>a \<in> set (animLandObjects sky'). anim_ok sky' a"
proof -
  from assms(1) obtain as' where t: "tick_objs dt sky (animLandObjects sky) = Some (Inr as')"
    and s: "sky' = sky\<lparr>animLandObjects := as'\<rparr>"
    by (auto simp: tick_def split: option.splits sum.splits)
  from tick_objs_ok [OF t assms(2)] s show ?thesis by (simp add: anim_ok_def)
qed

lemma initAnimatedLand_effect:
  assumes "initAnimatedLand C cityDef exe (sky, tm) = Inr (sky', tm')"
  shows "\<exists>new ext. animLandObjects sky' = animLandObjects sky @ [new]
     \<and> textureSets sky' = textureSets sky @ ext
     \<and> currentFrameTime new = 0 \<and> 0 < targetFrameTime new \<and> index new = 0
     \<and> 0 \<le> setEntryIndex new \<and> setEntryIndex new < int (length (textureSets sky'))"
  using assms
  by (auto simp: initAnimatedLand_def Let_def loadSurface_def loadSurfaces_def
      mkAnimatedLandObject_def getTextureSetEntryIndex_def
      split: prod.splits sum.splits if_splits option.splits dest!: find_index_of_Some)

lemma initAnimatedLand_ok:
  assumes "initAnimatedLand C cityDef exe (sky, tm) = Inr (sky', tm')"
    and ok: "\<forall>a \<in> set (animLandObjects sky). anim_ok sky a"
  shows "\<forall>a \<in> set (animLandObjects sky'). anim_ok sky' a"
proof -
  from initAnimatedLand_effect [OF assms(1)] obtain new ext where
    e: "animLandObjects sky' = animLandObjects sky @ [new]"
      "textureSets sky' = textureSets sky @ ext"
      "currentFrameTime new = 0" "0 < targetFrameTime new"
      "0 \<le> setEntryIndex new" "setEntryIndex new < int (length (textureSets sky'))"
    by blast
  have "anim_ok sky' new" using e by (simp add: anim_ok_def)
  moreover have "anim_ok sky' a" if "a \<in> set (animLandObjects sky)" for a
    using ok that e(2) by (auto simp: anim_ok_def)
  ultimately show ?thesis using e(1) by auto
qed

lemma init_ok:
  assumes run: "init C loc prov w day n exe (sky, tm) = Some (Inr (sky', tm'))"
    and ok: "\<forall>a \<in> set (animLandObjects sky). anim_ok sky a"
  shows "\<forall>a \<in> set (animLandObjects sky'). anim_ok sky' a"
proof -
  from run obtain k r1 sky1 tm1 r2 sky2 tm2 st3 where
    m: "placeMountains (random C) (cityDefinition loc) (snd (MountainTraits ! k))
       (distantMountainFilenames exe ! nat (filenameIndex (snd (MountainTraits ! k)))) (sky, tm) = Inr (r1, sky1, tm1)"
    and c: "placeClouds (random C) w day exe (r1, sky1, tm1) = Inr (r2, sky2, tm2)"
    and a: "(if hasAnimatedDistantLand prov then initAnimatedLand C (cityDefinition loc) exe (sky2, tm2)
      else Inr (sky2, tm2)) = Inr st3"
    and s: "initSpaceObjects C w day n exe r2 st3 = Some (Inr (sky', tm'))"
    by (rule init_cases)
  obtain sky3 tm3 where st3: "st3 = (sky3, tm3)" by (cases st3)
  from placeMountains_frame [OF m] placeClouds_frame [OF c] ok
  have ok2: "\<forall>a \<in> set (animLandObjects sky2). anim_ok sky2 a" by (simp add: anim_ok_def)
  have ok3: "\<forall>a \<in> set (animLandObjects sky3). anim_ok sky3 a"
  proof (cases "hasAnimatedDistantLand prov")
    case True
    with a st3 have "initAnimatedLand C (cityDefinition loc) exe (sky2, tm2) = Inr (sky3, tm3)" by simp
    from initAnimatedLand_ok [OF this ok2] show ?thesis .
  next
    case False
    with a st3 ok2 show ?thesis by simp
  qed
  from initSpaceObjects_frame [OF s [unfolded st3]] ok3 show ?thesis by (simp add: anim_ok_def)
qed

lemma reachable_ok: "reachable C sky \<Longrightarrow> \<forall>a \<in> set (animLandObjects sky). anim_ok sky a"
proof (induction rule: reachable.induct)
  case reachable_empty
  then show ?case by (simp add: emptySky_def)
next
  case (reachable_init sky locationDef provinceDef weatherType currentDay starCount exeData tm sky' tm')
  from init_ok [OF reachable_init.hyps(2) reachable_init.IH] show ?case .
next
  case (reachable_tick sky dt sky')
  from tick_ok [OF reachable_tick.hyps(2) reachable_tick.IH] show ?case .
qed

lemma update_zero:
  assumes "anim_ok sky a"
  shows "update 0 sky a = Some (Inr a)"
proof -
  from assms have c: "\<not> targetFrameTime a \<le> currentFrameTime a" by (simp add: anim_ok_def)
  then have "update_while n a = Some a" for n by (subst update_while.simps) simp
  with assms show ?thesis by (simp add: update_def getTextureSetCount_def anim_ok_def)
qed

lemma tick_objs_zero: "\<forall>a \<in> set as. anim_ok sky a \<Longrightarrow> tick_objs 0 sky as = Some (Inr as)"
  by (induction as) (simp_all add: update_zero)

lemma tick_zero: "\<forall>a \<in> set (animLandObjects sky). anim_ok sky a \<Longrightarrow> tick 0 sky = Some (Inr sky)"
  by (simp add: tick_def tick_objs_zero)

lemma tick_n_zero: "\<forall>a \<in> set (animLandObjects sky). anim_ok sky a \<Longrightarrow> tick_n k 0 sky = Some (Inr sky)"
  by (induction k) (simp_all add: tick_zero)

text \<open>
  C9: from any reachable state of the aggregate, any number of calls of \<open>tick 0\<close>
  return and leave the sky as it is; in particular no frame index changes.
\<close>

theorem tick_zero_keeps_frame_index:
  assumes "reachable C sky"
  shows "tick_n k 0 sky = Some (Inr sky)
    \<and> (\<forall>sky'. tick_n k 0 sky = Some (Inr sky')
          \<longrightarrow> map index (animLandObjects sky') = map index (animLandObjects sky))"
  using tick_n_zero [OF reachable_ok [OF assms]] by simp

lemma animRun_objects:
  "animLandObjects (fst animRun) = [\<lparr> setEntryIndex = 0, anim_angleRadians = 0,
      targetFrameTime = 1 / 3, currentFrameTime = 0, index = 0 \<rparr>]
   \<and> textureSets (fst animRun)
       = [\<lparr> set_filename = ''VOLCA1.DFA'', set_textures = replicate 32 blankBuffer \<rparr>]"
  by (simp add: animRun_def run_simps)

lemma tickedSky_ok:
  "tick 1 (fst animRun) = Some (Inr tickedSky) \<and> map index (animLandObjects tickedSky) = [3]"
  using animRun_objects
  by (simp add: tickedSky_def tick_def update_def getTextureSetCount_def update_while.simps)

theorem tick_zero_keeps_frame_index_witness:
  "reachable (testCollab []) tickedSky
   \<and> map index (animLandObjects tickedSky) = [3]
   \<and> tick_n 5 0 tickedSky = Some (Inr tickedSky)"
proof -
  have "reachable (testCollab []) (fst animRun)"
    using reachable_init [OF reachable_empty animRun_ok] .
  then have r: "reachable (testCollab []) tickedSky"
    using tickedSky_ok reachable_tick by blast
  from tick_zero_keeps_frame_index [OF r, of 5] r tickedSky_ok show ?thesis by simp
qed

section \<open>The texture stores\<close>

lemma find_index_of_None: "find_index_of P xs = None \<Longrightarrow> \<forall>x \<in> set xs. \<not> P x"
  by (induction xs) (auto split: if_splits)

lemma find_index_of_append:
  "find_index_of P xs = Some i \<Longrightarrow> find_index_of P (xs @ ys) = Some i"
  by (induction xs arbitrary: i) (auto split: if_splits)

lemma store_grows_refl: "store_grows st st"
  by (simp add: store_grows_def)

lemma store_grows_trans:
  assumes "store_grows st1 st2" "store_grows st2 st3"
  shows "store_grows st1 st3"
proof -
  from assms(1) obtain e1 s1 q1 where a:
    "textures (fst st2) = textures (fst st1) @ e1"
    "textureSets (fst st2) = textureSets (fst st1) @ s1"
    "requests (snd st2) = requests (snd st1) @ q1"
    "mset (map snd q1) = mset (map tex_filename e1) + mset (map set_filename s1)"
    by (auto simp: store_grows_def)
  from assms(2) obtain e2 s2 q2 where b:
    "textures (fst st3) = textures (fst st2) @ e2"
    "textureSets (fst st3) = textureSets (fst st2) @ s2"
    "requests (snd st3) = requests (snd st2) @ q2"
    "mset (map snd q2) = mset (map tex_filename e2) + mset (map set_filename s2)"
    by (auto simp: store_grows_def)
  have "textures (fst st3) = textures (fst st1) @ (e1 @ e2)
      \<and> textureSets (fst st3) = textureSets (fst st1) @ (s1 @ s2)
      \<and> requests (snd st3) = requests (snd st1) @ (q1 @ q2)
      \<and> mset (map snd (q1 @ q2)) = mset (map tex_filename (e1 @ e2)) + mset (map set_filename (s1 @ s2))"
    using a b by simp
  then have "\<exists>ext exts newreq.
          textures (fst st3) = textures (fst st1) @ ext
        \<and> textureSets (fst st3) = textureSets (fst st1) @ exts
        \<and> requests (snd st3) = requests (snd st1) @ newreq
        \<and> mset (map snd newreq) = mset (map tex_filename ext) + mset (map set_filename exts)"
    by blast
  with assms show ?thesis by (simp add: store_grows_def)
qed

lemma store_grows_same:
  "textures sky' = textures sky \<Longrightarrow> textureSets sky' = textureSets sky \<Longrightarrow>
   requests tm' = requests tm \<Longrightarrow> store_grows (sky, tm) (sky', tm')"
  by (simp add: store_grows_def)

lemma store_grows_texture:
  assumes "textures sky' = textures sky @ [e]" "textureSets sky' = textureSets sky"
    "requests tm' = requests tm @ [(k, tex_filename e)]"
    "getTextureEntryIndex sky (tex_filename e) = None"
  shows "store_grows (sky, tm) (sky', tm')"
proof -
  from assms(4) have "tex_filename e \<notin> set (map tex_filename (textures sky))"
    by (auto simp: getTextureEntryIndex_def dest!: find_index_of_None)
  moreover have "\<exists>ext exts newreq.
          textures sky' = textures sky @ ext
        \<and> textureSets sky' = textureSets sky @ exts
        \<and> requests tm' = requests tm @ newreq
        \<and> mset (map snd newreq) = mset (map tex_filename ext) + mset (map set_filename exts)"
    by (rule exI [of _ "[e]"], rule exI [of _ "[]"], rule exI [of _ "[(k, tex_filename e)]"])
       (use assms in simp)
  ultimately show ?thesis using assms by (simp add: store_grows_def)
qed

lemma store_grows_set:
  assumes "textureSets sky' = textureSets sky @ [e]" "textures sky' = textures sky"
    "requests tm' = requests tm @ [(k, set_filename e)]"
    "getTextureSetEntryIndex sky (set_filename e) = None"
  shows "store_grows (sky, tm) (sky', tm')"
proof -
  from assms(4) have "set_filename e \<notin> set (map set_filename (textureSets sky))"
    by (auto simp: getTextureSetEntryIndex_def dest!: find_index_of_None)
  moreover have "\<exists>ext exts newreq.
          textures sky' = textures sky @ ext
        \<and> textureSets sky' = textureSets sky @ exts
        \<and> requests tm' = requests tm @ newreq
        \<and> mset (map snd newreq) = mset (map tex_filename ext) + mset (map set_filename exts)"
    by (rule exI [of _ "[]"], rule exI [of _ "[e]"], rule exI [of _ "[(k, set_filename e)]"])
       (use assms in simp)
  ultimately show ?thesis using assms by (simp add: store_grows_def)
qed

lemma fixEntryIndexIfMissing_grows:
  assumes "fixEntryIndexIfMissing tm sky f (getTextureEntryIndex sky f) = (i, sky', tm')"
  shows "store_grows (sky, tm) (sky', tm')"
proof (cases "getTextureEntryIndex sky f")
  case None
  with assms show ?thesis
    by (intro store_grows_texture [where e = "\<lparr>tex_filename = f, tex_texture = make8BitSurface tm f\<rparr>" and k = SingleFrame])
       (auto simp: fixEntryIndexIfMissing_def loadSurface_def Let_def)
next
  case (Some j)
  with assms show ?thesis
    by (intro store_grows_same) (auto simp: fixEntryIndexIfMissing_def)
qed

lemma store_grows_objects:
  "store_grows (sky, tm) (sky', tm') \<Longrightarrow> textures sky'' = textures sky' \<Longrightarrow>
   textureSets sky'' = textureSets sky' \<Longrightarrow> store_grows (sky, tm) (sky'', tm')"
  by (simp add: store_grows_def)

lemma placeStaticObject_grows:
  assumes "placeStaticObject R b pos var md rh (r, sky, tm) = Inr (r', sky', tm')"
  shows "store_grows (sky, tm) (sky', tm')"
proof -
  from assms obtain f i sky1 where
    fx: "fixEntryIndexIfMissing tm sky f (getTextureEntryIndex sky f) = (i, sky1, tm')"
    and t: "textures sky' = textures sky1" "textureSets sky' = textureSets sky1"
    by (auto simp: placeStaticObject_def Let_def split: prod.splits sum.splits if_splits)
  from store_grows_objects [OF fixEntryIndexIfMissing_grows [OF fx] t] show ?thesis .
qed

lemma placeStaticObjects_n_grows:
  "placeStaticObjects_n n R b pos var md rh (r, sky, tm) = Inr (r', sky', tm') \<Longrightarrow>
   store_grows (sky, tm) (sky', tm')"
proof (induction n arbitrary: r sky tm)
  case 0
  then show ?case by (simp add: store_grows_refl)
next
  case (Suc n)
  from Suc.prems obtain r1 sky1 tm1 where
    step: "placeStaticObject R b pos var md rh (r, sky, tm) = Inr (r1, sky1, tm1)"
    and rest: "placeStaticObjects_n n R b pos var md rh (r1, sky1, tm1) = Inr (r', sky', tm')"
    by (auto split: sum.splits)
  from store_grows_trans [OF placeStaticObject_grows [OF step] Suc.IH [OF rest]] show ?case .
qed

lemma placeMountains_grows:
  "placeMountains R cityDef mt b (sky, tm) = Inr (r', sky', tm') \<Longrightarrow> store_grows (sky, tm) (sky', tm')"
  by (auto simp: placeMountains_def placeStaticObjects_def Let_def split: prod.splits
      dest!: placeStaticObjects_n_grows)

lemma placeClouds_grows:
  "placeClouds R w day exe (r, sky, tm) = Inr (r', sky', tm') \<Longrightarrow> store_grows (sky, tm) (sky', tm')"
  by (auto simp: placeClouds_def placeStaticObjects_def Let_def store_grows_refl split: if_splits
      dest!: placeStaticObjects_n_grows)

lemma initAnimatedLand_grows:
  assumes "initAnimatedLand C cityDef exe (sky, tm) = Inr (sky', tm')"
  shows "store_grows (sky, tm) (sky', tm')"
proof -
  let ?loc = "getLocalCityPoint C (citySeed cityDef)"
  let ?dist = "getDistance C ?loc (132, 52)"
  let ?k = "if ?dist < 80 then 0 else if ?dist < 150 then 1 else (2::nat)"
  let ?f = "toUppercase (animDistantMountainFilenames exe ! ?k)"
  show ?thesis
  proof (cases "getTextureSetEntryIndex sky ?f")
    case (Some j)
    with assms show ?thesis
      by (intro store_grows_same)
         (auto simp: initAnimatedLand_def Let_def mkAnimatedLandObject_def split: if_splits)
  next
    case None
    show ?thesis
    proof (cases "contains_sub ''.DFA'' ?f")
      case True
      with None assms show ?thesis
        by (intro store_grows_set [where e = "\<lparr>set_filename = ?f, set_textures = make8BitSurfaces tm ?f\<rparr>" and k = MultiFrame])
           (auto simp: initAnimatedLand_def Let_def mkAnimatedLandObject_def loadSurfaces_def split: if_splits)
    next
      case False
      with None assms show ?thesis
        by (intro store_grows_set [where e = "\<lparr>set_filename = ?f, set_textures = [make8BitSurface tm ?f]\<rparr>" and k = SingleFrame])
           (auto simp: initAnimatedLand_def Let_def mkAnimatedLandObject_def loadSurface_def split: if_splits)
    qed
  qed
qed

lemma makeMoon_grows:
  assumes "makeMoon day exe t (sky, tm) = Inr (m, sky', tm')"
  shows "store_grows (sky, tm) (sky', tm')"
proof -
  let ?f = "toUppercase (moonFilenames exe ! moonIndexOf t)"
  show ?thesis
  proof (cases "getTextureEntryIndex sky ?f")
    case (Some j)
    with assms show ?thesis
      by (intro store_grows_same) (auto simp: makeMoon_def Let_def split: if_splits)
  next
    case None
    with assms show ?thesis
      by (intro store_grows_texture [where e = "\<lparr>tex_filename = ?f,
             tex_texture = make8BitSurfaces tm ?f ! nat (moonPhaseIndex day t)\<rparr>" and k = MultiFrame])
         (auto simp: makeMoon_def Let_def loadSurfaces_def split: if_splits)
  qed
qed

lemma initMoons_grows:
  assumes "initMoons day exe (sky, tm) = Inr (sky', tm')"
  shows "store_grows (sky, tm) (sky', tm')"
proof -
  from assms obtain m1 sky1 tm1 m2 sky2 where
    a: "makeMoon day exe First (sky, tm) = Inr (m1, sky1, tm1)"
    and b: "makeMoon day exe Second (sky1\<lparr>moonObjects := moonObjects sky1 @ [m1]\<rparr>, tm1) = Inr (m2, sky2, tm')"
    and c: "sky' = sky2\<lparr>moonObjects := moonObjects sky2 @ [m2]\<rparr>"
    by (auto simp: initMoons_def split: sum.splits prod.splits)
  have g1: "store_grows (sky, tm) (sky1\<lparr>moonObjects := moonObjects sky1 @ [m1]\<rparr>, tm1)"
    using store_grows_objects [OF makeMoon_grows [OF a]] by simp
  have g2: "store_grows (sky1\<lparr>moonObjects := moonObjects sky1 @ [m1]\<rparr>, tm1) (sky', tm')"
    using store_grows_objects [OF makeMoon_grows [OF b]] c by simp
  from store_grows_trans [OF g1 g2] show ?thesis .
qed

lemma convertStar_grows:
  assumes "convertStar C pal exe star (sky, tm) = Inr (sky', tm')"
  shows "store_grows (sky, tm) (sky', tm')"
proof (cases "star_type star = - 1")
  case True
  with assms show ?thesis
    by (intro store_grows_same) (auto simp: convertStar_def Let_def split: sum.splits)
next
  case False
  with assms obtain f i sky1 where
    fx: "fixEntryIndexIfMissing tm sky f (getTextureEntryIndex sky f) = (i, sky1, tm')"
    and t: "textures sky' = textures sky1" "textureSets sky' = textureSets sky1"
    by (auto simp: convertStar_def Let_def split: prod.splits sum.splits)
  from store_grows_objects [OF fixEntryIndexIfMissing_grows [OF fx] t] show ?thesis .
qed

lemma convertStars_grows:
  "convertStars C pal exe stars (sky, tm) = Inr (sky', tm') \<Longrightarrow> store_grows (sky, tm) (sky', tm')"
proof (induction stars arbitrary: sky tm)
  case Nil
  then show ?case by (simp add: store_grows_refl)
next
  case (Cons star stars)
  from Cons.prems obtain sky1 tm1 where
    a: "convertStar C pal exe star (sky, tm) = Inr (sky1, tm1)"
    and b: "convertStars C pal exe stars (sky1, tm1) = Inr (sky', tm')"
    by (auto split: sum.splits)
  from store_grows_trans [OF convertStar_grows [OF a] Cons.IH [OF b]] show ?case .
qed

lemma initSun_grows:
  assumes "initSun exe (sky, tm) = (sky', tm')"
  shows "store_grows (sky, tm) (sky', tm')"
proof -
  from assms obtain f i sky1 where
    fx: "fixEntryIndexIfMissing tm sky f (getTextureEntryIndex sky f) = (i, sky1, tm')"
    and t: "textures sky' = textures sky1" "textureSets sky' = textureSets sky1"
    by (auto simp: initSun_def Let_def split: prod.splits)
  from store_grows_objects [OF fixEntryIndexIfMissing_grows [OF fx] t] show ?thesis .
qed

lemma initSpaceObjects_grows:
  assumes "initSpaceObjects C w day n exe r (sky, tm) = Some (Inr (sky', tm'))"
  shows "store_grows (sky, tm) (sky', tm')"
  using assms
proof (cases rule: initSpaceObjects_cases)
  case 1
  then show ?thesis by (simp add: store_grows_refl)
next
  case (2 st1 stars pal st2)
  obtain sky1 tm1 sky2 tm2 where st: "st1 = (sky1, tm1)" "st2 = (sky2, tm2)"
    by (cases st1, cases st2) auto
  from 2 st have "store_grows (sky, tm) (sky1, tm1)" "store_grows (sky1, tm1) (sky2, tm2)"
    "store_grows (sky2, tm2) (sky', tm')"
    by (auto intro: initMoons_grows convertStars_grows initSun_grows)
  then show ?thesis by (blast intro: store_grows_trans)
qed

lemma init_grows:
  assumes run: "init C loc prov w day n exe (sky, tm) = Some (Inr (sky', tm'))"
  shows "store_grows (sky, tm) (sky', tm')"
proof -
  from run obtain k r1 sky1 tm1 r2 sky2 tm2 st3 where
    m: "placeMountains (random C) (cityDefinition loc) (snd (MountainTraits ! k))
       (distantMountainFilenames exe ! nat (filenameIndex (snd (MountainTraits ! k)))) (sky, tm) = Inr (r1, sky1, tm1)"
    and c: "placeClouds (random C) w day exe (r1, sky1, tm1) = Inr (r2, sky2, tm2)"
    and a: "(if hasAnimatedDistantLand prov then initAnimatedLand C (cityDefinition loc) exe (sky2, tm2)
      else Inr (sky2, tm2)) = Inr st3"
    and s: "initSpaceObjects C w day n exe r2 st3 = Some (Inr (sky', tm'))"
    by (rule init_cases)
  obtain sky3 tm3 where st3: "st3 = (sky3, tm3)" by (cases st3)
  have g3: "store_grows (sky2, tm2) (sky3, tm3)"
    using a st3 by (auto split: if_splits intro: initAnimatedLand_grows store_grows_refl)
  from placeMountains_grows [OF m] placeClouds_grows [OF c] g3
    initSpaceObjects_grows [OF s [unfolded st3]]
  show ?thesis by (blast intro: store_grows_trans)
qed


lemma find_index_of_fresh:
  "find_index_of P xs = None \<Longrightarrow> P e \<Longrightarrow> find_index_of P (xs @ [e]) = Some (length xs)"
  by (induction xs) (auto split: if_splits)

lemma request_twice:
  assumes "fixEntryIndexIfMissing tm sky f (getTextureEntryIndex sky f) = (i, sky1, tm1)"
  shows "getTextureEntryIndex sky1 f = Some i
    \<and> fixEntryIndexIfMissing tm1 sky1 f (getTextureEntryIndex sky1 f) = (i, sky1, tm1)"
proof (cases "getTextureEntryIndex sky f")
  case (Some j)
  with assms show ?thesis by (auto simp: fixEntryIndexIfMissing_def)
next
  case None
  then have n: "find_index_of (\<lambda>entry. tex_filename entry = f) (textures sky) = None"
    by (simp add: getTextureEntryIndex_def)
  from None assms have s1: "sky1 = sky\<lparr>textures := textures sky @
      [\<lparr>tex_filename = f, tex_texture = make8BitSurface tm f\<rparr>]\<rparr>"
    and i: "i = int (length (textures sky))"
    by (auto simp: fixEntryIndexIfMissing_def loadSurface_def Let_def)
  from find_index_of_fresh [OF n, of "\<lparr>tex_filename = f, tex_texture = make8BitSurface tm f\<rparr>"] s1 i
  have "getTextureEntryIndex sky1 f = Some i" by (simp add: getTextureEntryIndex_def)
  then show ?thesis by (simp add: fixEntryIndexIfMissing_def)
qed

lemma lookup_kept:
  "getTextureEntryIndex sky f = Some i \<Longrightarrow> textures sky' = textures sky @ ext \<Longrightarrow>
   getTextureEntryIndex sky' f = Some i"
  by (auto simp: getTextureEntryIndex_def dest: find_index_of_append)

lemma lookup_set_kept:
  "getTextureSetEntryIndex sky f = Some i \<Longrightarrow> textureSets sky' = textureSets sky @ ext \<Longrightarrow>
   getTextureSetEntryIndex sky' f = Some i"
  by (auto simp: getTextureSetEntryIndex_def dest: find_index_of_append)

lemma lookup_injective:
  "getTextureEntryIndex sky f = Some i \<Longrightarrow> getTextureEntryIndex sky g = Some i \<Longrightarrow> f = g"
  by (auto simp: getTextureEntryIndex_def dest!: find_index_of_Some)

lemma lookup_set_injective:
  "getTextureSetEntryIndex sky f = Some i \<Longrightarrow> getTextureSetEntryIndex sky g = Some i \<Longrightarrow> f = g"
  by (auto simp: getTextureSetEntryIndex_def dest!: find_index_of_Some)

text \<open>
  C6, as the code has it.  Within a run of \<open>init\<close> from stores whose identifiers are
  distinct: both stores only grow by appending, so an identifier keeps its index; the
  identifiers stay distinct within each store and an index belongs to one identifier;
  each loader call goes with exactly one appended entry, so the loader is invoked at
  most once per identifier and store; and requesting a texture index for an identifier
  a second time gives the same index without a further entry or loader call.
\<close>

theorem texture_store_dedup:
  assumes "init C loc prov w day n exe (sky, tm) = Some (Inr (sky', tm'))"
    and "distinct (map tex_filename (textures sky))"
    and "distinct (map set_filename (textureSets sky))"
  shows "(\<exists>ext exts newreq.
            textures sky' = textures sky @ ext
          \<and> textureSets sky' = textureSets sky @ exts
          \<and> requests tm' = requests tm @ newreq
          \<and> mset (map snd newreq) = mset (map tex_filename ext) + mset (map set_filename exts))
    \<and> distinct (map tex_filename (textures sky'))
    \<and> distinct (map set_filename (textureSets sky'))
    \<and> (\<forall>f i. getTextureEntryIndex sky f = Some i \<longrightarrow> getTextureEntryIndex sky' f = Some i)
    \<and> (\<forall>f i. getTextureSetEntryIndex sky f = Some i \<longrightarrow> getTextureSetEntryIndex sky' f = Some i)
    \<and> (\<forall>f g i. getTextureEntryIndex sky' f = Some i \<and> getTextureEntryIndex sky' g = Some i \<longrightarrow> f = g)
    \<and> (\<forall>f g i. getTextureSetEntryIndex sky' f = Some i \<and> getTextureSetEntryIndex sky' g = Some i \<longrightarrow> f = g)
    \<and> (\<forall>f i sky1 tm1.
          fixEntryIndexIfMissing tm' sky' f (getTextureEntryIndex sky' f) = (i, sky1, tm1)
          \<longrightarrow> getTextureEntryIndex sky1 f = Some i
            \<and> fixEntryIndexIfMissing tm1 sky1 f (getTextureEntryIndex sky1 f) = (i, sky1, tm1))"
proof -
  from init_grows [OF assms(1)] assms(2,3) obtain ext exts newreq where
    g: "textures sky' = textures sky @ ext" "textureSets sky' = textureSets sky @ exts"
      "requests tm' = requests tm @ newreq"
      "mset (map snd newreq) = mset (map tex_filename ext) + mset (map set_filename exts)"
    and d: "distinct (map tex_filename (textures sky'))" "distinct (map set_filename (textureSets sky'))"
    by (auto simp: store_grows_def)
  from g have A: "\<exists>ext exts newreq.
            textures sky' = textures sky @ ext
          \<and> textureSets sky' = textureSets sky @ exts
          \<and> requests tm' = requests tm @ newreq
          \<and> mset (map snd newreq) = mset (map tex_filename ext) + mset (map set_filename exts)"
    by blast
  have C1: "\<forall>f i. getTextureEntryIndex sky f = Some i \<longrightarrow> getTextureEntryIndex sky' f = Some i"
    using lookup_kept g(1) by blast
  have C2: "\<forall>f i. getTextureSetEntryIndex sky f = Some i \<longrightarrow> getTextureSetEntryIndex sky' f = Some i"
    using lookup_set_kept g(2) by blast
  have D1: "\<forall>f g i. getTextureEntryIndex sky' f = Some i \<and> getTextureEntryIndex sky' g = Some i \<longrightarrow> f = g"
    using lookup_injective by blast
  have D2: "\<forall>f g i. getTextureSetEntryIndex sky' f = Some i \<and> getTextureSetEntryIndex sky' g = Some i \<longrightarrow> f = g"
    using lookup_set_injective by blast
  have E: "\<forall>f i sky1 tm1.
          fixEntryIndexIfMissing tm' sky' f (getTextureEntryIndex sky' f) = (i, sky1, tm1)
          \<longrightarrow> getTextureEntryIndex sky1 f = Some i
            \<and> fixEntryIndexIfMissing tm1 sky1 f (getTextureEntryIndex sky1 f) = (i, sky1, tm1)"
    using request_twice by blast
  from A d C1 C2 D1 D2 E show ?thesis by blast
qed

theorem texture_store_dedup_witness:
  "init (testCollab []) (testCity Temperate) \<lparr>hasAnimatedDistantLand = True\<rparr> (OtherWeather 0) 0 0
     testExeData (emptySky, testManager) = Some (Inr (fst animRun, snd animRun))
   \<and> distinct (map tex_filename (textures emptySky))
   \<and> distinct (map set_filename (textureSets emptySky))
   \<and> distinct (map tex_filename (textures (fst animRun)))
   \<and> distinct (map set_filename (textureSets (fst animRun)))
   \<and> mset (map snd (requests (snd animRun)))
       = mset (map tex_filename (textures (fst animRun))) + mset (map set_filename (textureSets (fst animRun)))"
proof -
  have d: "distinct (map tex_filename (textures emptySky))" "distinct (map set_filename (textureSets emptySky))"
    by (simp_all add: emptySky_def)
  from texture_store_dedup [OF animRun_ok d] animRun_ok d show ?thesis
    by (auto simp: emptySky_def testManager_def)
qed

text \<open>
  The claim as stated fails across the two stores: when the animated land and the sun
  name the same single-frame image, the loader is called twice for that identifier,
  once for the texture-set store and once for the texture store.
\<close>

theorem loader_once_counterexample:
  "map_option (map_sum id (\<lambda>st. filter (\<lambda>q. snd q = ''SUN.IMG'') (requests (snd st))))
     (init (testCollab []) (testCity Temperate) \<lparr>hasAnimatedDistantLand = True\<rparr> Clear 0 0
        sharedNameExeData (emptySky, testManager))
   = Some (Inr [(SingleFrame, ''SUN.IMG''), (SingleFrame, ''SUN.IMG'')])"
  by (simp add: run_simps sharedNameExeData_def)

section \<open>The frame-advance rule of AnimatedLandObject\<close>










end
